theory Spec2Isabelle
  imports Main "HOL-Library.Char_ord" "HOL-Library.List_Lexorder" "HOL-Library.AList"
begin

section \<open>JavaScript values\<close>

text \<open>
  The values the library handles. A function value is a reference: \<open>At a\<close> is the
  function object stored at address \<open>a\<close>; \<open>Getter\<close> and \<open>Setter\<close> are the closures
  \<^verbatim>\<open>function getter(){ return this[hiddenPropertyName] }\<close> and
  \<^verbatim>\<open>function setter(newValue){ this[hiddenPropertyName] = newValue }\<close> that
  \<^verbatim>\<open>describe\<close> synthesises. Numbers are the integers, \<^verbatim>\<open>NaN\<close> and \<^verbatim>\<open>Infinity\<close>
  (no fractions, no negative infinity);
  \<open>Arr\<close> is an array, by its elements, and \<open>Arguments\<close> the \<^verbatim>\<open>arguments\<close> object of a
  call (array-like, but not an \<^verbatim>\<open>Array\<close>).
\<close>

datatype fref = At nat | Getter | Setter

datatype jsval =
    Undefined
  | Null
  | Bool bool
  | Num int
  | NaN
  | Infinity
  | Str string
  | Fun fref
  | Obj nat
  | Arr "jsval list"
  | Arguments "jsval list"

fun typeof :: "jsval \<Rightarrow> string" where
  "typeof Undefined = ''undefined''"
| "typeof Null = ''object''"
| "typeof (Bool b) = ''boolean''"
| "typeof (Num n) = ''number''"
| "typeof NaN = ''number''"
| "typeof Infinity = ''number''"
| "typeof (Str s) = ''string''"
| "typeof (Fun f) = ''function''"
| "typeof (Obj a) = ''object''"
| "typeof (Arr vs) = ''object''"
| "typeof (Arguments vs) = ''object''"

text \<open>ToBoolean: what \<^verbatim>\<open>if(v)\<close>, \<^verbatim>\<open>v || w\<close> and \<^verbatim>\<open>!v\<close> test.\<close>

fun truthy :: "jsval \<Rightarrow> bool" where
  "truthy Undefined = False"
| "truthy Null = False"
| "truthy (Bool b) = b"
| "truthy (Num n) = (n \<noteq> 0)"
| "truthy NaN = False"
| "truthy Infinity = True"
| "truthy (Str s) = (s \<noteq> [])"
| "truthy (Fun f) = True"
| "truthy (Obj a) = True"
| "truthy (Arr vs) = True"
| "truthy (Arguments vs) = True"

section \<open>Property descriptors as \<^verbatim>\<open>describe\<close> builds them\<close>

text \<open>
  A descriptor object has up to six keys. \<open>None\<close> is an absent key; \<open>Some Undefined\<close> is
  a key that is present and holds \<^verbatim>\<open>undefined\<close> (the host's HasProperty tells them apart).
\<close>

record attrs =
  d_value :: "jsval option"
  d_get :: "jsval option"
  d_set :: "jsval option"
  d_writable :: "jsval option"
  d_enumerable :: "jsval option"
  d_configurable :: "jsval option"

definition no_attrs :: attrs where
  "no_attrs = \<lparr>d_value = None, d_get = None, d_set = None,
                d_writable = None, d_enumerable = None, d_configurable = None\<rparr>"

text \<open>
  A record of the result. \<^verbatim>\<open>Object.create($defaultDescriptor)\<close> is an object with no
  key of its own whose prototype is the default descriptor: \<open>own\<close> holds the keys
  assigned to the object, \<open>fallback\<close> is the prototype that answers for every key the
  object lacks. The other kind of record is a function of the host, a member of
  \<^verbatim>\<open>Object.prototype\<close> that \<^verbatim>\<open>descriptors[name]\<close> has found (\<open>of_host\<close>): \<open>own\<close> are the
  keys that function carries, and its \<open>fallback\<close> has none, since neither
  \<^verbatim>\<open>Function.prototype\<close> nor \<^verbatim>\<open>Object.prototype\<close> has one of the six keys.
\<close>

record descriptor =
  own :: attrs
  fallback :: attrs
  of_host :: bool

fun or_else :: "'a option \<Rightarrow> 'a option \<Rightarrow> 'a option" where
  "or_else (Some v) y = Some v"
| "or_else None y = y"

fun or_undefined :: "jsval option \<Rightarrow> jsval" where
  "or_undefined (Some v) = v"
| "or_undefined None = Undefined"

text \<open>
  \<open>has_key f d\<close> is the host's view of key \<open>f\<close> of the object \<open>d\<close> (HasProperty and Get
  walk the prototype chain); \<open>read_key f d\<close> is the expression \<^verbatim>\<open>d.f\<close>.
\<close>

definition has_key :: "(attrs \<Rightarrow> jsval option) \<Rightarrow> descriptor \<Rightarrow> jsval option" where
  "has_key f d = or_else (f (own d)) (f (fallback d))"

definition read_key :: "(attrs \<Rightarrow> jsval option) \<Rightarrow> descriptor \<Rightarrow> jsval" where
  "read_key f d = or_undefined (has_key f d)"

text \<open>
  The literal \<^verbatim>\<open>{configurable: true, enumerable: true, writable: true}\<close> used when no
  default descriptor is passed.
\<close>

definition baseline :: attrs where
  "baseline = \<lparr>d_value = None, d_get = None, d_set = None,
                d_writable = Some (Bool True), d_enumerable = Some (Bool True),
                d_configurable = Some (Bool True)\<rparr>"

section \<open>The annotated-name grammar\<close>

text \<open>
  \<^verbatim>\<open>name.match(/^\((((get|set|const|hidden|final|writable) *)+)\) +(.+)$/)\<close>.
  No flag is a prefix of another, so at most one alternative applies at a position.
\<close>

definition flag_words :: "string list" where
  "flag_words = [''get'', ''set'', ''const'', ''hidden'', ''final'', ''writable'']"

definition strip_word :: "string \<Rightarrow> string \<Rightarrow> string option" where
  "strip_word w s = (if take (length w) s = w then Some (drop (length w) s) else None)"

fun strip_flag :: "string list \<Rightarrow> string \<Rightarrow> string option" where
  "strip_flag [] s = None"
| "strip_flag (w # ws) s = (case strip_word w s of Some r \<Rightarrow> Some r | None \<Rightarrow> strip_flag ws s)"

text \<open>
  \<open>flag_run n s\<close>: \<open>s\<close> is one or more flags, each followed by zero or more spaces
  (the group \<^verbatim>\<open>((get|...|writable) *)+\<close>). Every round consumes a flag, so
  \<open>length s\<close> rounds suffice; \<open>n\<close> counts them down.
\<close>

fun flag_run :: "nat \<Rightarrow> string \<Rightarrow> bool" where
  "flag_run 0 s = False"
| "flag_run (Suc n) s =
     (case strip_flag flag_words s of
        None \<Rightarrow> False
      | Some r \<Rightarrow> (let r' = dropWhile (\<lambda>c. c = CHR '' '') r in r' = [] \<or> flag_run n r'))"

definition line_terminator :: "char \<Rightarrow> bool" where
  "line_terminator c = (c = CHR 0x0A \<or> c = CHR 0x0D)"

text \<open>
  The tail \<^verbatim>\<open>\) +(.+)$\<close> on what follows the closing parenthesis: one or more
  spaces, then the name, one or more characters other than line terminators up to the
  end. The spaces are matched greedily, and one is given back when nothing else is left
  for the name.
\<close>

definition match_tail :: "string \<Rightarrow> string option" where
  "match_tail t =
     (let sp = takeWhile (\<lambda>c. c = CHR '' '') t; nm = dropWhile (\<lambda>c. c = CHR '' '') t
      in if sp = [] then None
         else if nm = [] then (if 2 \<le> length sp then Some '' '' else None)
         else if list_ex line_terminator nm then None
         else Some nm)"

text \<open>\<open>match_name name = Some (matches[1], matches[4])\<close>, or \<open>None\<close> for \<^verbatim>\<open>null\<close>.\<close>

definition match_name :: "string \<Rightarrow> (string \<times> string) option" where
  "match_name name =
     (case name of
        [] \<Rightarrow> None
      | c # r \<Rightarrow>
          if c \<noteq> CHR ''('' then None
          else (let inner = takeWhile (\<lambda>c. c \<noteq> CHR '')'') r;
                    after = dropWhile (\<lambda>c. c \<noteq> CHR '')'') r
                in if \<not> flag_run (length inner) inner then None
                   else (case after of
                           [] \<Rightarrow> None
                         | p # t \<Rightarrow> (case match_tail t of
                                        None \<Rightarrow> None
                                      | Some nm \<Rightarrow> Some (inner, nm)))))"

text \<open>\<^verbatim>\<open>s.split(' ')\<close>: two adjacent spaces give an empty piece.\<close>

fun split_on :: "char \<Rightarrow> string \<Rightarrow> string list" where
  "split_on c [] = [[]]"
| "split_on c (x # xs) =
     (if x = c then [] # split_on c xs
      else (case split_on c xs of
              [] \<Rightarrow> [[x]]
            | w # ws \<Rightarrow> (x # w) # ws))"

text \<open>
  \<open>parse_name name\<close>: the sorted prefixes and the bare name of an annotated name
  (\<^verbatim>\<open>matches[1].split(' ').sort()\<close> and \<^verbatim>\<open>matches[4]\<close>); \<open>None\<close> when the name does
  not start with a parenthesis or the pattern does not match.
\<close>

definition parse_name :: "string \<Rightarrow> (string list \<times> string) option" where
  "parse_name name =
     (case match_name name of
        None \<Rightarrow> None
      | Some (inner, nm) \<Rightarrow> Some (sort (split_on (CHR '' '') inner), nm))"

section \<open>\<^verbatim>\<open>describe\<close>: from a property map to property descriptors\<close>

text \<open>
  The result object \<^verbatim>\<open>descriptors = {}\<close> inherits from the host's
  \<^verbatim>\<open>Object.prototype\<close>, so \<^verbatim>\<open>descriptors[name]\<close> also finds the members the host
  keeps there. \<open>host_members\<close> are the names of the functions among them
  (\<^verbatim>\<open>descriptors.constructor\<close> is the global \<^verbatim>\<open>Object\<close>); each is truthy, so an annotated
  entry with such a bare name takes that function as its record and assigns the keys to
  it. The functions are distinct objects, and what the source assigns to them stays on
  them after the call: \<open>host_keys\<close> is that state, the keys each of these functions
  carries, none in the host as loaded (\<open>pristine\<close>).
\<close>

definition host_members :: "string list" where
  "host_members =
     [''constructor'', ''toString'', ''toLocaleString'', ''valueOf'', ''hasOwnProperty'',
      ''isPrototypeOf'', ''propertyIsEnumerable'', ''__defineGetter__'',
      ''__defineSetter__'', ''__lookupGetter__'', ''__lookupSetter__'']"

type_synonym host_keys = "string \<Rightarrow> attrs"

definition pristine :: host_keys where
  "pristine = (\<lambda>n. no_attrs)"

text \<open>
  The one bare name the model does not follow is \<^verbatim>\<open>__proto__\<close>: there
  \<^verbatim>\<open>descriptors[name]\<close> is \<^verbatim>\<open>Object.prototype\<close> itself, so a flag becomes a key that
  every object of the program inherits, and \<^verbatim>\<open>descriptors[name] = descriptor\<close> replaces
  the prototype of the result instead of adding a key. A round that stores under that
  name ends the model with \<open>HostMember\<close>.
\<close>

datatype unsupported = HostMember string

text \<open>
  The state of the loop: the result object, with its keys in insertion order, and the
  variable \<^verbatim>\<open>hiddenPropertyName\<close>. The variable is declared with \<^verbatim>\<open>var\<close>, so one
  binding serves the whole call and every synthesised \<open>Getter\<close> and \<open>Setter\<close> of the call
  reads it.
\<close>

record dstate =
  descriptors :: "(string \<times> descriptor) list"
  hiddenPropertyName :: "string option"
  host :: host_keys

definition set_own :: "(attrs \<Rightarrow> attrs) \<Rightarrow> descriptor \<Rightarrow> descriptor" where
  "set_own f d = d\<lparr>own := f (own d)\<rparr>"

text \<open>The \<^verbatim>\<open>switch(prefixes[i])\<close>; a piece that is no flag falls through every case.\<close>

definition apply_prefix :: "jsval \<Rightarrow> string \<Rightarrow> descriptor \<Rightarrow> descriptor" where
  "apply_prefix v p d =
     (if p = ''const'' then set_own (\<lambda>a. a\<lparr>d_writable := Some (Bool False)\<rparr>) d
      else if p = ''final'' then
        set_own (\<lambda>a. a\<lparr>d_writable := Some (Bool False)\<rparr>)
          (set_own (\<lambda>a. a\<lparr>d_configurable := Some (Bool False)\<rparr>) d)
      else if p = ''get'' then set_own (\<lambda>a. a\<lparr>d_get := Some v\<rparr>) d
      else if p = ''hidden'' then set_own (\<lambda>a. a\<lparr>d_enumerable := Some (Bool False)\<rparr>) d
      else if p = ''set'' then set_own (\<lambda>a. a\<lparr>d_set := Some v\<rparr>) d
      else if p = ''writable'' then set_own (\<lambda>a. a\<lparr>d_writable := Some (Bool True)\<rparr>) d
      else d)"

text \<open>
  \<^verbatim>\<open>if(descriptor.get || descriptor.set){ ... }else{ descriptor.value = value }\<close>:
  the descriptor, the local \<^verbatim>\<open>value\<close> and \<^verbatim>\<open>hiddenPropertyName\<close> afterwards.
\<close>

definition accessor_or_value ::
  "jsval \<Rightarrow> descriptor \<Rightarrow> string option \<Rightarrow> descriptor \<times> jsval \<times> string option" where
  "accessor_or_value v d hp =
     (if truthy (read_key d_get d) \<or> truthy (read_key d_set d) then
        (let (d1, hp1) =
               (case v of
                  Str s \<Rightarrow>
                    (if typeof (read_key d_get d) = ''string''
                     then set_own (\<lambda>a. a\<lparr>d_get := Some (Fun Getter)\<rparr>) d
                     else set_own (\<lambda>a. a\<lparr>d_set := Some (Fun Setter)\<rparr>) d, Some s)
                | _ \<Rightarrow> (d, hp));
             d2 = set_own (\<lambda>a. a\<lparr>d_value := Some Undefined\<rparr>) d1
         in (d2, if truthy (read_key d_get d2) then Undefined else v, hp1))
      else (set_own (\<lambda>a. a\<lparr>d_value := Some v\<rparr>) d, v, hp))"

text \<open>
  \<^verbatim>\<open>if(hidingAllowed && typeof(value)=='function' || name[0]=='_')\<close>: \<^verbatim>\<open>&&\<close> binds
  tighter than \<^verbatim>\<open>||\<close>.
\<close>

definition hide :: "bool \<Rightarrow> string \<Rightarrow> jsval \<Rightarrow> descriptor \<Rightarrow> descriptor" where
  "hide hidingAllowed name v d =
     (if (hidingAllowed \<and> typeof v = ''function'') \<or> (name \<noteq> [] \<and> hd name = CHR ''_'')
      then set_own (\<lambda>a. a\<lparr>d_enumerable := Some (Bool False)\<rparr>) d
      else d)"

text \<open>The rest of the loop body once \<open>name\<close> and \<open>descriptor\<close> are settled. A record that
  is a function of the host is that function: the keys it has now are the keys the host
  keeps.\<close>

definition store_entry ::
  "bool \<Rightarrow> string \<Rightarrow> jsval \<Rightarrow> descriptor \<Rightarrow> dstate \<Rightarrow> unsupported + dstate" where
  "store_entry hidingAllowed name v d st =
     (let (d2, v2, hp) = accessor_or_value v d (hiddenPropertyName st);
          d3 = hide hidingAllowed name v2 d2
      in if name = ''__proto__'' then Inl (HostMember name)
         else Inr \<lparr>descriptors = AList.update name d3 (descriptors st),
                   hiddenPropertyName = hp,
                   host = (if of_host d3 then (host st)(name := own d3) else host st)\<rparr>)"

text \<open>
  One round of \<^verbatim>\<open>for(var name in properties)\<close>. \<^verbatim>\<open>if(descriptors[name]) descriptor =
  descriptors[name]\<close> runs for an annotated name only: it finds the record stored under
  the bare name, else the host's member of that name, else nothing.
\<close>

definition describe_entry ::
  "attrs \<Rightarrow> bool \<Rightarrow> string \<times> jsval \<Rightarrow> dstate \<Rightarrow> unsupported + dstate" where
  "describe_entry dflt hidingAllowed e st =
     (let fresh = \<lparr>own = no_attrs, fallback = dflt, of_host = False\<rparr> in
      case parse_name (fst e) of
        None \<Rightarrow> store_entry hidingAllowed (fst e) (snd e) fresh st
      | Some (prefixes, name) \<Rightarrow>
          (case map_of (descriptors st) name of
             Some d \<Rightarrow>
               store_entry hidingAllowed name (snd e) (fold (apply_prefix (snd e)) prefixes d) st
           | None \<Rightarrow>
               if name \<in> set host_members
               then store_entry hidingAllowed name (snd e)
                      (fold (apply_prefix (snd e)) prefixes
                         \<lparr>own = host st name, fallback = no_attrs, of_host = True\<rparr>) st
               else store_entry hidingAllowed name (snd e)
                      (fold (apply_prefix (snd e)) prefixes fresh) st))"

fun describe_loop ::
  "attrs \<Rightarrow> bool \<Rightarrow> (string \<times> jsval) list \<Rightarrow> dstate \<Rightarrow> unsupported + dstate" where
  "describe_loop dflt hidingAllowed [] st = Inr st"
| "describe_loop dflt hidingAllowed (e # es) st =
     (case describe_entry dflt hidingAllowed e st of
        Inl u \<Rightarrow> Inl u
      | Inr st' \<Rightarrow> describe_loop dflt hidingAllowed es st')"

text \<open>
  The property map is the list of the entries \<^verbatim>\<open>for ... in\<close> visits, in that order.
  \<open>defaultDescriptor = None\<close> is a call without the second argument.
\<close>

definition hiding_allowed :: "attrs option \<Rightarrow> bool" where
  "hiding_allowed defaultDescriptor =
     (\<not> (case defaultDescriptor of
            None \<Rightarrow> False
          | Some dd \<Rightarrow> truthy (or_undefined (d_enumerable dd))))"

definition default_of :: "attrs option \<Rightarrow> attrs" where
  "default_of defaultDescriptor = (case defaultDescriptor of Some dd \<Rightarrow> dd | None \<Rightarrow> baseline)"

definition describe_run ::
  "host_keys \<Rightarrow> (string \<times> jsval) list \<Rightarrow> attrs option \<Rightarrow> unsupported + dstate" where
  "describe_run h properties defaultDescriptor =
     describe_loop (default_of defaultDescriptor) (hiding_allowed defaultDescriptor) properties
       \<lparr>descriptors = [], hiddenPropertyName = None, host = h\<rparr>"

text \<open>
  \<open>describe_in h properties defaultDescriptor\<close>: the call in a host whose members carry
  the keys \<open>h\<close>; the result is the object returned, as its keys in insertion order, and
  the keys the host's members carry afterwards. \<open>describe\<close> is the call in the host as
  loaded.
\<close>

definition describe_in ::
  "host_keys \<Rightarrow> (string \<times> jsval) list \<Rightarrow> attrs option \<Rightarrow>
     unsupported + (string \<times> descriptor) list \<times> host_keys" where
  "describe_in h properties defaultDescriptor =
     (case describe_run h properties defaultDescriptor of
        Inl u \<Rightarrow> Inl u
      | Inr st \<Rightarrow> Inr (descriptors st, host st))"

definition describe ::
  "(string \<times> jsval) list \<Rightarrow> attrs option \<Rightarrow> unsupported + (string \<times> descriptor) list" where
  "describe properties defaultDescriptor =
     (case describe_in pristine properties defaultDescriptor of
        Inl u \<Rightarrow> Inl u
      | Inr (ds, h) \<Rightarrow> Inr ds)"

section \<open>Reading the result of \<^verbatim>\<open>describe\<close>\<close>

text \<open>
  What the host reads from a descriptor object when it installs the property: every
  key, own or inherited from the default descriptor.
\<close>

definition effective :: "descriptor \<Rightarrow> attrs" where
  "effective d =
     \<lparr>d_value = has_key d_value d, d_get = has_key d_get d, d_set = has_key d_set d,
      d_writable = has_key d_writable d, d_enumerable = has_key d_enumerable d,
      d_configurable = has_key d_configurable d\<rparr>"



text \<open>The name a round of the loop stores under, and the descriptor it starts from.\<close>

definition found_record :: "attrs \<Rightarrow> string \<Rightarrow> dstate \<Rightarrow> descriptor" where
  "found_record dflt name st =
     (case map_of (descriptors st) name of
        Some d \<Rightarrow> d
      | None \<Rightarrow>
          if name \<in> set host_members
          then \<lparr>own = host st name, fallback = no_attrs, of_host = True\<rparr>
          else \<lparr>own = no_attrs, fallback = dflt, of_host = False\<rparr>)"

definition entry_target :: "attrs \<Rightarrow> string \<times> jsval \<Rightarrow> dstate \<Rightarrow> string \<times> descriptor" where
  "entry_target dflt e st =
     (case parse_name (fst e) of
        None \<Rightarrow> (fst e, \<lparr>own = no_attrs, fallback = dflt, of_host = False\<rparr>)
      | Some (prefixes, name) \<Rightarrow>
          (name, fold (apply_prefix (snd e)) prefixes (found_record dflt name st)))"

text \<open>
  The bare name of an entry, and the property maps the model follows to the end: those
  without an entry whose bare name is \<^verbatim>\<open>__proto__\<close>.
\<close>

definition bare_name :: "string \<Rightarrow> string" where
  "bare_name n = (case parse_name n of None \<Rightarrow> n | Some (prefixes, b) \<Rightarrow> b)"

definition no_proto :: "(string \<times> jsval) list \<Rightarrow> bool" where
  "no_proto props = list_all (\<lambda>e. bare_name (fst e) \<noteq> ''__proto__'') props"



section \<open>The object store of the host\<close>

text \<open>
  The library orchestrates the host's objects through a handful of primitives
  (\<^verbatim>\<open>Object.create\<close>, \<^verbatim>\<open>Object.defineProperty\<close>, \<^verbatim>\<open>Object.getPrototypeOf\<close>,
  \<^verbatim>\<open>Object.seal\<close>, property reads and assignments). The store below gives them their
  ECMAScript 5 meaning for data properties; accessor properties are not stored.
\<close>

record property =
  p_value :: jsval
  p_writable :: bool
  p_enumerable :: bool
  p_configurable :: bool

text \<open>The bodies a function object can have: the library's own functions, by name, and
  the functions of the embedding program, by number.\<close>

datatype fcode =
    LibClone
  | LibCreate
  | CloneObject
  | LibDescribe
  | LibApplySuper
  | LibCallSuper
  | LibCopy
  | LibDeepCopy
  | LibDeepClone
  | LibDo
  | LibMix
  | LibSeal
  | LibDefineProperties
  | LibDefineProperty
  | CustomType
  | LibGetter
  | LibSetter
  | LibOther string
  | User nat

text \<open>
  An object: its prototype link (\<open>Null\<close> at the root), its own properties in insertion
  order, whether properties may still be added, and its body when it is a function.
\<close>

record obj =
  proto :: jsval
  own_props :: "(string \<times> property) list"
  extensible :: bool
  code :: "fcode option"

text \<open>
  The state: the store, the next free address, and \<open>trace\<close>, the one piece of state the
  embedding program keeps outside the store (the shared log its methods append to).
\<close>

record state =
  heap :: "nat \<Rightarrow> obj option"
  fresh :: nat
  trace :: "jsval list"

text \<open>How an operation ends without a value: a thrown \<^verbatim>\<open>TypeError\<close>, a value thrown by
  the embedding program, or a construct of the host that the model does not cover.\<close>

datatype stop = TypeError | Thrown jsval | Unmodelled string

fun addr_of :: "jsval \<Rightarrow> nat option" where
  "addr_of (Obj a) = Some a"
| "addr_of (Fun (At a)) = Some a"
| "addr_of v = None"

text \<open>
  Where the host wants an object: a reference into the store, a \<^verbatim>\<open>TypeError\<close> for a
  primitive value, and no answer for the objects the store does not hold (arrays,
  \<^verbatim>\<open>arguments\<close>, the synthesised closures).
\<close>

fun as_object :: "jsval \<Rightarrow> stop + nat" where
  "as_object (Obj a) = Inr a"
| "as_object (Fun (At a)) = Inr a"
| "as_object (Fun Getter) = Inl (Unmodelled ''object outside the store'')"
| "as_object (Fun Setter) = Inl (Unmodelled ''object outside the store'')"
| "as_object (Arr vs) = Inl (Unmodelled ''object outside the store'')"
| "as_object (Arguments vs) = Inl (Unmodelled ''object outside the store'')"
| "as_object v = Inl TypeError"

definition own_prop :: "state \<Rightarrow> nat \<Rightarrow> string \<Rightarrow> property option" where
  "own_prop s a name = (case heap s a of None \<Rightarrow> None | Some ob \<Rightarrow> map_of (own_props ob) name)"

text \<open>
  GetProperty: the first property of that name along the prototype chain.
  \<^verbatim>\<open>Object.create\<close> links a new object to one that exists already, and nothing here
  relinks an object, so a prototype has a smaller address than its heirs; the walk stops
  at a link that does not go down.
\<close>

function find_prop :: "(nat \<Rightarrow> obj option) \<Rightarrow> nat \<Rightarrow> string \<Rightarrow> property option" where
  "find_prop h a name =
     (case h a of
        None \<Rightarrow> None
      | Some ob \<Rightarrow>
          (case map_of (own_props ob) name of
             Some p \<Rightarrow> Some p
           | None \<Rightarrow>
               (case addr_of (proto ob) of
                  None \<Rightarrow> None
                | Some b \<Rightarrow> if b < a then find_prop h b name else None)))"
  by pat_completeness auto
termination
  by (relation "measure (\<lambda>(h, a, name). a)") auto

declare find_prop.simps [simp del]

definition get_property :: "state \<Rightarrow> jsval \<Rightarrow> string \<Rightarrow> property option" where
  "get_property s v name =
     (case addr_of v of None \<Rightarrow> None | Some a \<Rightarrow> find_prop (heap s) a name)"

text \<open>The operator \<^verbatim>\<open>name in v\<close>.\<close>

definition js_in :: "state \<Rightarrow> string \<Rightarrow> jsval \<Rightarrow> stop + bool" where
  "js_in s name v =
     (case as_object v of
        Inl e \<Rightarrow> Inl e
      | Inr a \<Rightarrow> Inr (find_prop (heap s) a name \<noteq> None))"

text \<open>The expression \<^verbatim>\<open>v[name]\<close>.\<close>

definition js_get :: "state \<Rightarrow> jsval \<Rightarrow> string \<Rightarrow> stop + jsval" where
  "js_get s v name =
     (if v = Undefined \<or> v = Null then Inl TypeError
      else (case addr_of v of
              Some a \<Rightarrow>
                Inr (case find_prop (heap s) a name of None \<Rightarrow> Undefined | Some p \<Rightarrow> p_value p)
            | None \<Rightarrow> Inl (Unmodelled ''property of a value outside the store'')))"

text \<open>CanPut and Put of an assignment \<^verbatim>\<open>o[name] = v\<close> outside strict mode: an
  assignment that is not allowed changes nothing and raises nothing.\<close>

definition can_put :: "state \<Rightarrow> nat \<Rightarrow> string \<Rightarrow> bool" where
  "can_put s a name =
     (case heap s a of
        None \<Rightarrow> False
      | Some ob \<Rightarrow>
          (case map_of (own_props ob) name of
             Some p \<Rightarrow> p_writable p
           | None \<Rightarrow>
               (case get_property s (proto ob) name of
                  None \<Rightarrow> extensible ob
                | Some p \<Rightarrow> extensible ob \<and> p_writable p)))"

definition set_props :: "state \<Rightarrow> nat \<Rightarrow> (string \<times> property) list \<Rightarrow> state" where
  "set_props s a ps =
     (case heap s a of
        None \<Rightarrow> s
      | Some ob \<Rightarrow> s\<lparr>heap := (heap s)(a \<mapsto> ob\<lparr>own_props := ps\<rparr>)\<rparr>)"

definition put :: "state \<Rightarrow> nat \<Rightarrow> string \<Rightarrow> jsval \<Rightarrow> state" where
  "put s a name v =
     (if \<not> can_put s a name then s
      else (case heap s a of
              None \<Rightarrow> s
            | Some ob \<Rightarrow>
                (case map_of (own_props ob) name of
                   Some p \<Rightarrow> set_props s a (AList.update name (p\<lparr>p_value := v\<rparr>) (own_props ob))
                 | None \<Rightarrow>
                     set_props s a
                       (AList.update name
                          \<lparr>p_value = v, p_writable = True, p_enumerable = True,
                           p_configurable = True\<rparr> (own_props ob)))))"

definition js_put :: "state \<Rightarrow> jsval \<Rightarrow> string \<Rightarrow> jsval \<Rightarrow> stop + state" where
  "js_put s target name v =
     (if target = Undefined \<or> target = Null then Inl TypeError
      else (case as_object target of
              Inr a \<Rightarrow> Inr (put s a name v)
            | Inl TypeError \<Rightarrow> Inr s
            | Inl e \<Rightarrow> Inl e))"

text \<open>\<^verbatim>\<open>Object.getPrototypeOf(v)\<close>: a \<^verbatim>\<open>TypeError\<close> unless \<open>v\<close> is an object.\<close>

definition getPrototypeOf :: "state \<Rightarrow> jsval \<Rightarrow> stop + jsval" where
  "getPrototypeOf s v =
     (case as_object v of
        Inl e \<Rightarrow> Inl e
      | Inr a \<Rightarrow> (case heap s a of
                     None \<Rightarrow> Inl (Unmodelled ''dangling reference'')
                   | Some ob \<Rightarrow> Inr (proto ob)))"

text \<open>\<^verbatim>\<open>Object.getOwnPropertyNames(v)\<close>, and the same with the object's address.\<close>

definition own_names :: "state \<Rightarrow> nat \<Rightarrow> stop + string list" where
  "own_names s a =
     (case heap s a of
        None \<Rightarrow> Inl (Unmodelled ''dangling reference'')
      | Some ob \<Rightarrow> Inr (map fst (own_props ob)))"

definition getOwnPropertyNames :: "state \<Rightarrow> jsval \<Rightarrow> stop + string list" where
  "getOwnPropertyNames s v = (case as_object v of Inl e \<Rightarrow> Inl e | Inr a \<Rightarrow> own_names s a)"

text \<open>A property descriptor as the host holds it after ToPropertyDescriptor, for a data
  property: each field present or absent.\<close>

record pdesc =
  pd_value :: "jsval option"
  pd_writable :: "bool option"
  pd_enumerable :: "bool option"
  pd_configurable :: "bool option"

definition pdesc_of_prop :: "property \<Rightarrow> pdesc" where
  "pdesc_of_prop p =
     \<lparr>pd_value = Some (p_value p), pd_writable = Some (p_writable p),
      pd_enumerable = Some (p_enumerable p), pd_configurable = Some (p_configurable p)\<rparr>"

text \<open>
  ToPropertyDescriptor on the keys the host finds on a descriptor object. A getter or
  setter that is neither callable nor \<^verbatim>\<open>undefined\<close> is a \<^verbatim>\<open>TypeError\<close>, and so is a
  getter or setter next to a \<^verbatim>\<open>value\<close> or \<^verbatim>\<open>writable\<close> key.
\<close>

definition to_property_descriptor :: "attrs \<Rightarrow> stop + pdesc" where
  "to_property_descriptor a =
     (if (case d_get a of Some g \<Rightarrow> typeof g \<noteq> ''function'' \<and> g \<noteq> Undefined | None \<Rightarrow> False)
      then Inl TypeError
      else if (case d_set a of Some g \<Rightarrow> typeof g \<noteq> ''function'' \<and> g \<noteq> Undefined | None \<Rightarrow> False)
      then Inl TypeError
      else if (d_get a \<noteq> None \<or> d_set a \<noteq> None) \<and> (d_value a \<noteq> None \<or> d_writable a \<noteq> None)
      then Inl TypeError
      else if d_get a \<noteq> None \<or> d_set a \<noteq> None
      then Inl (Unmodelled ''accessor property'')
      else Inr \<lparr>pd_value = d_value a, pd_writable = map_option truthy (d_writable a),
                pd_enumerable = map_option truthy (d_enumerable a),
                pd_configurable = map_option truthy (d_configurable a)\<rparr>)"

text \<open>DefineOwnProperty for a data descriptor; a rejection is a \<^verbatim>\<open>TypeError\<close>.\<close>

definition define_own_property :: "state \<Rightarrow> nat \<Rightarrow> string \<Rightarrow> pdesc \<Rightarrow> stop + state" where
  "define_own_property s a name d =
     (case heap s a of
        None \<Rightarrow> Inl (Unmodelled ''dangling reference'')
      | Some ob \<Rightarrow>
          (case map_of (own_props ob) name of
             None \<Rightarrow>
               if \<not> extensible ob then Inl TypeError
               else Inr (set_props s a
                      (AList.update name
                         \<lparr>p_value = or_undefined (pd_value d),
                          p_writable = (pd_writable d = Some True),
                          p_enumerable = (pd_enumerable d = Some True),
                          p_configurable = (pd_configurable d = Some True)\<rparr> (own_props ob)))
           | Some cur \<Rightarrow>
               if \<not> p_configurable cur \<and>
                  (pd_configurable d = Some True \<or>
                   (pd_enumerable d \<noteq> None \<and> pd_enumerable d \<noteq> Some (p_enumerable cur)))
               then Inl TypeError
               else if \<not> p_configurable cur \<and> \<not> p_writable cur \<and>
                  (pd_writable d = Some True \<or>
                   (pd_value d \<noteq> None \<and> pd_value d \<noteq> Some (p_value cur)))
               then Inl TypeError
               else Inr (set_props s a
                      (AList.update name
                         \<lparr>p_value = (case pd_value d of Some v \<Rightarrow> v | None \<Rightarrow> p_value cur),
                          p_writable = (case pd_writable d of Some b \<Rightarrow> b | None \<Rightarrow> p_writable cur),
                          p_enumerable =
                            (case pd_enumerable d of Some b \<Rightarrow> b | None \<Rightarrow> p_enumerable cur),
                          p_configurable =
                            (case pd_configurable d of Some b \<Rightarrow> b | None \<Rightarrow> p_configurable cur)\<rparr>
                         (own_props ob)))))"

text \<open>\<^verbatim>\<open>Object.defineProperty(target, name, descriptor)\<close> with the descriptor's keys
  read already.\<close>

definition defineProperty :: "state \<Rightarrow> jsval \<Rightarrow> string \<Rightarrow> attrs \<Rightarrow> stop + state" where
  "defineProperty s target name a =
     (case as_object target of
        Inl e \<Rightarrow> Inl e
      | Inr t \<Rightarrow> (case to_property_descriptor a of
                     Inl e \<Rightarrow> Inl e
                   | Inr d \<Rightarrow> define_own_property s t name d))"

text \<open>
  \<^verbatim>\<open>Object.defineProperties(target, descriptors)\<close>: every descriptor is converted
  before the first property is defined; the properties are then defined in order, and a
  rejection leaves the earlier ones in place.
\<close>

fun convert_all :: "(string \<times> attrs) list \<Rightarrow> stop + (string \<times> pdesc) list" where
  "convert_all [] = Inr []"
| "convert_all ((n, a) # r) =
     (case to_property_descriptor a of
        Inl e \<Rightarrow> Inl e
      | Inr d \<Rightarrow> (case convert_all r of Inl e \<Rightarrow> Inl e | Inr ds \<Rightarrow> Inr ((n, d) # ds)))"

fun define_all :: "state \<Rightarrow> nat \<Rightarrow> (string \<times> pdesc) list \<Rightarrow> stop \<times> state + state" where
  "define_all s t [] = Inr s"
| "define_all s t ((n, d) # r) =
     (case define_own_property s t n d of
        Inl e \<Rightarrow> Inl (e, s)
      | Inr s' \<Rightarrow> define_all s' t r)"

definition defineProperties ::
  "state \<Rightarrow> jsval \<Rightarrow> (string \<times> attrs) list \<Rightarrow> stop \<times> state + state" where
  "defineProperties s target ds =
     (case as_object target of
        Inl e \<Rightarrow> Inl (e, s)
      | Inr t \<Rightarrow> (case convert_all ds of
                     Inl e \<Rightarrow> Inl (e, s)
                   | Inr ps \<Rightarrow> define_all s t ps))"

text \<open>Allocation, and \<^verbatim>\<open>Object.create(parent)\<close>: a new extensible object without
  properties; the parent is an object or \<^verbatim>\<open>null\<close>.\<close>

definition alloc :: "state \<Rightarrow> obj \<Rightarrow> nat \<times> state" where
  "alloc s ob = (fresh s, s\<lparr>heap := (heap s)(fresh s \<mapsto> ob), fresh := Suc (fresh s)\<rparr>)"

definition object_create :: "state \<Rightarrow> jsval \<Rightarrow> stop + nat \<times> state" where
  "object_create s parent =
     (if parent = Null \<or> addr_of parent \<noteq> None
      then Inr (alloc s \<lparr>proto = parent, own_props = [], extensible = True, code = None\<rparr>)
      else (case as_object parent of Inl e \<Rightarrow> Inl e | Inr a \<Rightarrow> Inl TypeError))"

text \<open>\<^verbatim>\<open>Object.seal(v)\<close>: no own property stays configurable and none can be added.\<close>

definition seal :: "state \<Rightarrow> jsval \<Rightarrow> stop + state" where
  "seal s v =
     (case as_object v of
        Inl e \<Rightarrow> Inl e
      | Inr a \<Rightarrow>
          (case heap s a of
             None \<Rightarrow> Inl (Unmodelled ''dangling reference'')
           | Some ob \<Rightarrow>
               Inr (s\<lparr>heap := (heap s)(a \<mapsto>
                      ob\<lparr>own_props := map (\<lambda>(n, p). (n, p\<lparr>p_configurable := False\<rparr>)) (own_props ob),
                         extensible := False\<rparr>)\<rparr>)))"

text \<open>The body of a function value, if it is one.\<close>

definition fun_code :: "state \<Rightarrow> jsval \<Rightarrow> fcode option" where
  "fun_code s f =
     (case f of
        Fun (At a) \<Rightarrow> (case heap s a of None \<Rightarrow> None | Some ob \<Rightarrow> code ob)
      | Fun Getter \<Rightarrow> Some LibGetter
      | Fun Setter \<Rightarrow> Some LibSetter
      | _ \<Rightarrow> None)"

section \<open>Running functions\<close>

text \<open>
  A call ends with a value or a \<open>stop\<close>, in a new state; \<open>None\<close> means the call has not
  finished within the steps granted. \<open>interp\<close> is the host's call of a function value:
  callee, \<^verbatim>\<open>this\<close>, arguments. A function of the embedding program is a HOL function
  that receives the interpreter, so it can call back into the library.
\<close>

type_synonym result = "((stop + jsval) \<times> state) option"

type_synonym interp = "jsval \<Rightarrow> jsval \<Rightarrow> jsval list \<Rightarrow> state \<Rightarrow> result"

type_synonym ufun = "interp \<Rightarrow> jsval \<Rightarrow> jsval list \<Rightarrow> state \<Rightarrow> result"

definition and_then :: "result \<Rightarrow> (jsval \<Rightarrow> state \<Rightarrow> result) \<Rightarrow> result" where
  "and_then r k =
     (case r of
        None \<Rightarrow> None
      | Some (Inl e, s) \<Rightarrow> Some (Inl e, s)
      | Some (Inr v, s) \<Rightarrow> k v s)"

definition arg :: "jsval list \<Rightarrow> nat \<Rightarrow> jsval" where
  "arg args i = (if i < length args then args ! i else Undefined)"

text \<open>The addresses the host and the library occupy before anything else is allocated:
  \<^verbatim>\<open>Object.prototype\<close>, \<^verbatim>\<open>Function.prototype\<close> and \<^verbatim>\<open>$object\<close>.\<close>

definition object_prototype :: nat where
  "object_prototype = 0"

definition function_prototype :: nat where
  "function_prototype = 1"

definition dollar_object :: nat where
  "dollar_object = 2"

text \<open>
  A function expression evaluated: a function object with its \<^verbatim>\<open>length\<close> and a
  \<^verbatim>\<open>prototype\<close> object that points back through \<^verbatim>\<open>constructor\<close>.
\<close>

definition function_object :: "nat \<Rightarrow> fcode \<Rightarrow> nat \<Rightarrow> obj" where
  "function_object f c arity =
     \<lparr>proto = Fun (At function_prototype),
      own_props =
        [(''length'', \<lparr>p_value = Num (int arity), p_writable = False,
                       p_enumerable = False, p_configurable = False\<rparr>),
         (''prototype'', \<lparr>p_value = Obj (Suc f), p_writable = True,
                          p_enumerable = False, p_configurable = False\<rparr>)],
      extensible = True, code = Some c\<rparr>"

definition prototype_object :: "nat \<Rightarrow> obj" where
  "prototype_object f =
     \<lparr>proto = Obj object_prototype,
      own_props =
        [(''constructor'', \<lparr>p_value = Fun (At f), p_writable = True,
                            p_enumerable = False, p_configurable = True\<rparr>)],
      extensible = True, code = None\<rparr>"

definition alloc_function :: "state \<Rightarrow> fcode \<Rightarrow> nat \<Rightarrow> nat \<times> state" where
  "alloc_function s c arity =
     (let f = fresh s
      in (f, s\<lparr>heap := (heap s)(f \<mapsto> function_object f c arity,
                               Suc f \<mapsto> prototype_object f),
               fresh := Suc (Suc f)\<rparr>))"

text \<open>An object literal \<^verbatim>\<open>{k1: v1, ...}\<close>.\<close>

definition alloc_literal :: "state \<Rightarrow> (string \<times> jsval) list \<Rightarrow> nat \<times> state" where
  "alloc_literal s kvs =
     alloc s \<lparr>proto = Obj object_prototype,
              own_props = map (\<lambda>(k, v). (k, \<lparr>p_value = v, p_writable = True,
                                               p_enumerable = True, p_configurable = True\<rparr>)) kvs,
              extensible = True, code = None\<rparr>"

section \<open>Property maps and default descriptors held in the store\<close>

text \<open>
  \<^verbatim>\<open>for(var name in properties)\<close> with \<^verbatim>\<open>properties[name]\<close>: the enumerable
  properties along the prototype chain, an object's own ones first, skipping a name that
  a nearer object has.
\<close>

function for_in :: "(nat \<Rightarrow> obj option) \<Rightarrow> nat \<Rightarrow> string list \<Rightarrow> (string \<times> jsval) list" where
  "for_in h a seen =
     (case h a of
        None \<Rightarrow> []
      | Some ob \<Rightarrow>
          map (\<lambda>(n, p). (n, p_value p))
            (filter (\<lambda>(n, p). p_enumerable p \<and> n \<notin> set seen) (own_props ob)) @
          (case addr_of (proto ob) of
             None \<Rightarrow> []
           | Some b \<Rightarrow> if b < a then for_in h b (seen @ map fst (own_props ob)) else []))"
  by pat_completeness auto
termination
  by (relation "measure (\<lambda>(h, a, seen). a)") auto

declare for_in.simps [simp del]

definition entries_of :: "state \<Rightarrow> jsval \<Rightarrow> stop + (string \<times> jsval) list" where
  "entries_of s v =
     (case addr_of v of
        Some a \<Rightarrow> Inr (for_in (heap s) a [])
      | None \<Rightarrow>
          (case v of
             Str x \<Rightarrow> Inl (Unmodelled ''enumeration of a string'')
           | _ \<Rightarrow> (case as_object v of
                      Inl (Unmodelled x) \<Rightarrow> Inl (Unmodelled x)
                    | _ \<Rightarrow> Inr [])))"

text \<open>The six keys of a descriptor object in the store, as the host finds them.\<close>

definition attrs_of :: "state \<Rightarrow> nat \<Rightarrow> attrs" where
  "attrs_of s a =
     \<lparr>d_value = map_option p_value (find_prop (heap s) a ''value''),
      d_get = map_option p_value (find_prop (heap s) a ''get''),
      d_set = map_option p_value (find_prop (heap s) a ''set''),
      d_writable = map_option p_value (find_prop (heap s) a ''writable''),
      d_enumerable = map_option p_value (find_prop (heap s) a ''enumerable''),
      d_configurable = map_option p_value (find_prop (heap s) a ''configurable'')\<rparr>"

text \<open>
  The store holds the objects of the program, not the host's functions: a call of
  \<^verbatim>\<open>describe\<close> whose result has one of them as a record, or that stops at \<^verbatim>\<open>__proto__\<close>,
  is outside what the store can show.
\<close>

definition in_store ::
  "unsupported + (string \<times> descriptor) list \<Rightarrow> stop + (string \<times> descriptor) list" where
  "in_store r =
     (case r of
        Inl (HostMember n) \<Rightarrow> Inl (Unmodelled n)
      | Inr ds \<Rightarrow>
          if list_ex (\<lambda>(n, d). of_host d) ds
          then Inl (Unmodelled ''record that is a member of Object.prototype'')
          else Inr ds)"

text \<open>
  \<^verbatim>\<open>$object.describe.apply(null, arguments)\<close>, as long as \<^verbatim>\<open>$object.describe\<close> still is
  the library's function. A default descriptor that is truthy but no object makes
  \<^verbatim>\<open>Object.create($defaultDescriptor)\<close> throw in the first round of the loop.
\<close>

definition describe_args :: "state \<Rightarrow> jsval list \<Rightarrow> stop + (string \<times> descriptor) list" where
  "describe_args s args =
     (case js_get s (Obj dollar_object) ''describe'' of
        Inl e \<Rightarrow> Inl e
      | Inr f \<Rightarrow>
          (case fun_code s f of
             None \<Rightarrow> Inl TypeError
           | Some c \<Rightarrow>
               if c \<noteq> LibDescribe then Inl (Unmodelled ''describe was replaced'')
               else (case entries_of s (arg args 0) of
                       Inl e \<Rightarrow> Inl e
                     | Inr es \<Rightarrow>
                         if \<not> truthy (arg args 1) then
                           in_store (describe es None)
                         else (case as_object (arg args 1) of
                                 Inl TypeError \<Rightarrow> if es = [] then Inr [] else Inl TypeError
                               | Inl e \<Rightarrow> Inl e
                               | Inr a \<Rightarrow>
                                   in_store (describe es (Some (attrs_of s a)))))))"

section \<open>The library's functions\<close>

subsection \<open>\<^verbatim>\<open>clone\<close>, \<^verbatim>\<open>create\<close> and the default constructor\<close>

text \<open>\<^verbatim>\<open>Object.create(this, descriptors)\<close>.\<close>

definition create_with ::
  "state \<Rightarrow> jsval \<Rightarrow> (string \<times> descriptor) list \<Rightarrow> (stop + jsval) \<times> state" where
  "create_with s this ds =
     (case object_create s this of
        Inl e \<Rightarrow> (Inl e, s)
      | Inr (a, s1) \<Rightarrow>
          (case defineProperties s1 (Obj a) (map (\<lambda>(n, d). (n, effective d)) ds) of
             Inl (e, s2) \<Rightarrow> (Inl e, s2)
           | Inr s2 \<Rightarrow> (Inr (Obj a), s2)))"

definition lib_clone :: "jsval \<Rightarrow> jsval list \<Rightarrow> state \<Rightarrow> (stop + jsval) \<times> state" where
  "lib_clone this args s =
     (if args = [] then create_with s this []
      else (case describe_args s args of
              Inl e \<Rightarrow> (Inl e, s)
            | Inr ds \<Rightarrow>
                (case map_of ds ''constructor'' of
                   None \<Rightarrow> create_with s this ds
                 | Some d \<Rightarrow>
                     (let (c, ds1, s1) =
                            (if typeof (read_key d_value d) = ''string''
                             then (let (f, s') = alloc_function s CustomType 0
                                   in (Fun (At f),
                                       AList.update ''constructor''
                                         (set_own (\<lambda>a. a\<lparr>d_value := Some (Fun (At f))\<rparr>) d) ds,
                                       s'))
                             else (read_key d_value d, ds, s))
                      in case js_put s1 c ''prototype'' this of
                           Inl e \<Rightarrow> (Inl e, s1)
                         | Inr s2 \<Rightarrow> create_with s2 this ds1))))"

text \<open>\<^verbatim>\<open>var obj = this.clone(); return obj.constructor.apply(obj, arguments) || obj;\<close>\<close>

definition lib_create :: "interp \<Rightarrow> jsval \<Rightarrow> jsval list \<Rightarrow> state \<Rightarrow> result" where
  "lib_create callf this args s =
     (case js_get s this ''clone'' of
        Inl e \<Rightarrow> Some (Inl e, s)
      | Inr c \<Rightarrow>
          and_then (callf c this [] s)
            (\<lambda>ob s1.
               case js_get s1 ob ''constructor'' of
                 Inl e \<Rightarrow> Some (Inl e, s1)
               | Inr k \<Rightarrow>
                   and_then (callf k ob args s1)
                     (\<lambda>r s2. Some (Inr (if truthy r then r else ob), s2))))"

text \<open>
  The default constructor \<^verbatim>\<open>CloneObject\<close>; \<open>callee\<close> is the function object that is
  running, which is what the name \<^verbatim>\<open>CloneObject\<close> denotes inside it. \<open>properties_step\<close> is
  its first statement, \<^verbatim>\<open>properties && this.defineProperties(properties,
  defaultDescriptor)\<close>.
\<close>

definition properties_step :: "interp \<Rightarrow> jsval \<Rightarrow> jsval list \<Rightarrow> state \<Rightarrow> result" where
  "properties_step callf this args s =
     (if truthy (arg args 0)
      then (case js_get s this ''defineProperties'' of
              Inl e \<Rightarrow> Some (Inl e, s)
            | Inr f \<Rightarrow> callf f this [arg args 0, arg args 1] s)
      else Some (Inr Undefined, s))"

definition lib_CloneObject :: "jsval \<Rightarrow> interp \<Rightarrow> jsval \<Rightarrow> jsval list \<Rightarrow> state \<Rightarrow> result" where
  "lib_CloneObject callee callf this args s =
     and_then (properties_step callf this args s)
       (\<lambda>r s1.
          case js_get s1 this ''constructor'' of
            Inl e \<Rightarrow> Some (Inl e, s1)
          | Inr k \<Rightarrow>
              if k = callee
              then (case js_get s1 this ''seal'' of
                      Inl e \<Rightarrow> Some (Inl e, s1)
                    | Inr g \<Rightarrow> and_then (callf g this [] s1) (\<lambda>r s2. Some (Inr Undefined, s2)))
              else Some (Inr Undefined, s1))"

subsection \<open>The sugar the constructor and the dispatch use\<close>

definition lib_seal :: "jsval \<Rightarrow> state \<Rightarrow> (stop + jsval) \<times> state" where
  "lib_seal this s = (case seal s this of Inl e \<Rightarrow> (Inl e, s) | Inr s' \<Rightarrow> (Inr this, s'))"

definition lib_defineProperties :: "jsval \<Rightarrow> jsval list \<Rightarrow> state \<Rightarrow> (stop + jsval) \<times> state" where
  "lib_defineProperties this args s =
     (case describe_args s args of
        Inl e \<Rightarrow> (Inl e, s)
      | Inr ds \<Rightarrow>
          (case defineProperties s this (map (\<lambda>(n, d). (n, effective d)) ds) of
             Inl (e, s') \<Rightarrow> (Inl e, s')
           | Inr s' \<Rightarrow> (Inr this, s')))"

definition lib_defineProperty :: "jsval \<Rightarrow> jsval list \<Rightarrow> state \<Rightarrow> (stop + jsval) \<times> state" where
  "lib_defineProperty this args s =
     (case as_object this of
        Inl e \<Rightarrow> (Inl e, s)
      | Inr t \<Rightarrow>
          (case arg args 0 of
             Str name \<Rightarrow>
               (case as_object (arg args 1) of
                  Inl e \<Rightarrow> (Inl e, s)
                | Inr a \<Rightarrow>
                    (case defineProperty s this name (attrs_of s a) of
                       Inl e \<Rightarrow> (Inl e, s)
                     | Inr s' \<Rightarrow> (Inr this, s')))
           | _ \<Rightarrow> (Inl (Unmodelled ''property name that is no string''), s)))"

subsection \<open>Super dispatch: \<^verbatim>\<open>_applySuper\<close> and \<^verbatim>\<open>_callSuper\<close>\<close>

text \<open>The argument list \<^verbatim>\<open>f.apply(thisArg, args)\<close> passes on.\<close>

definition apply_args :: "jsval \<Rightarrow> stop + jsval list" where
  "apply_args a =
     (case a of
        Undefined \<Rightarrow> Inr []
      | Null \<Rightarrow> Inr []
      | Arr vs \<Rightarrow> Inr vs
      | Arguments vs \<Rightarrow> Inr vs
      | Obj x \<Rightarrow> Inl (Unmodelled ''array-like object'')
      | Fun x \<Rightarrow> Inl (Unmodelled ''array-like object'')
      | _ \<Rightarrow> Inl TypeError)"

text \<open>
  The head of \<^verbatim>\<open>_applySuper\<close>: a first argument that is no string makes the method
  name \<^verbatim>\<open>'constructor'\<close>, and is itself the argument list when it is an \<^verbatim>\<open>Array\<close>.
\<close>

definition super_arguments :: "jsval list \<Rightarrow> string \<times> jsval" where
  "super_arguments args =
     (case arg args 0 of
        Str m \<Rightarrow> (m, arg args 1)
      | Arr vs \<Rightarrow> (''constructor'', Arr vs)
      | _ \<Rightarrow> (''constructor'', arg args 1))"

text \<open>
  \<^verbatim>\<open>('__super__' in this) || this.defineProperty('__super__', {value:
  Object.getPrototypeOf(Object.getPrototypeOf(this)), writable: true, configurable: true})\<close>
\<close>

definition init_super :: "interp \<Rightarrow> jsval \<Rightarrow> state \<Rightarrow> result" where
  "init_super callf this s =
     (case js_in s ''__super__'' this of
        Inl e \<Rightarrow> Some (Inl e, s)
      | Inr True \<Rightarrow> Some (Inr (Bool True), s)
      | Inr False \<Rightarrow>
          (case js_get s this ''defineProperty'' of
             Inl e \<Rightarrow> Some (Inl e, s)
           | Inr dp \<Rightarrow>
               (case getPrototypeOf s this of
                  Inl e \<Rightarrow> Some (Inl e, s)
                | Inr parent \<Rightarrow>
                    (case getPrototypeOf s parent of
                       Inl e \<Rightarrow> Some (Inl e, s)
                     | Inr grandparent \<Rightarrow>
                         (let (d, s1) =
                                alloc_literal s
                                  [(''value'', grandparent), (''writable'', Bool True),
                                   (''configurable'', Bool True)]
                          in callf dp this [Str ''__super__'', Obj d] s1)))))"

text \<open>
  The body after the initialisation: save the cursor, move it one level up, apply the
  method found at the saved level to \<^verbatim>\<open>this\<close>, write the saved cursor back, return.
  There is no \<^verbatim>\<open>try\<close>: a callee that throws ends the function before the write-back.
\<close>

definition super_call :: "interp \<Rightarrow> jsval \<Rightarrow> string \<Rightarrow> jsval \<Rightarrow> state \<Rightarrow> result" where
  "super_call callf this methodName args s =
     (case js_get s this ''__super__'' of
        Inl e \<Rightarrow> Some (Inl e, s)
      | Inr savedSuper \<Rightarrow>
          (case getPrototypeOf s savedSuper of
             Inl e \<Rightarrow> Some (Inl e, s)
           | Inr up \<Rightarrow>
               (case js_put s this ''__super__'' up of
                  Inl e \<Rightarrow> Some (Inl e, s)
                | Inr s1 \<Rightarrow>
                    (case js_get s1 savedSuper methodName of
                       Inl e \<Rightarrow> Some (Inl e, s1)
                     | Inr f \<Rightarrow>
                         if typeof f \<noteq> ''function'' then Some (Inl TypeError, s1)
                         else (case apply_args args of
                                 Inl e \<Rightarrow> Some (Inl e, s1)
                               | Inr vs \<Rightarrow>
                                   and_then (callf f this vs s1)
                                     (\<lambda>returned s2.
                                        case js_put s2 this ''__super__'' savedSuper of
                                          Inl e \<Rightarrow> Some (Inl e, s2)
                                        | Inr s3 \<Rightarrow> Some (Inr returned, s3)))))))"

definition applySuper :: "interp \<Rightarrow> jsval \<Rightarrow> jsval list \<Rightarrow> state \<Rightarrow> result" where
  "applySuper callf this args s =
     and_then (init_super callf this s)
       (\<lambda>r s1. super_call callf this (fst (super_arguments args)) (snd (super_arguments args)) s1)"

text \<open>\<^verbatim>\<open>return this._applySuper(methodName, Array.prototype.slice.call(arguments, 1))\<close>\<close>

definition callSuper :: "interp \<Rightarrow> jsval \<Rightarrow> jsval list \<Rightarrow> state \<Rightarrow> result" where
  "callSuper callf this args s =
     (case js_get s this ''_applySuper'' of
        Inl e \<Rightarrow> Some (Inl e, s)
      | Inr f \<Rightarrow> callf f this [arg args 0, Arr (tl args)] s)"

text \<open>\<^verbatim>\<open>function CustomType(){ return this._applySuper(arguments); }\<close>\<close>

definition lib_CustomType :: "interp \<Rightarrow> jsval \<Rightarrow> jsval list \<Rightarrow> state \<Rightarrow> result" where
  "lib_CustomType callf this args s =
     (case js_get s this ''_applySuper'' of
        Inl e \<Rightarrow> Some (Inl e, s)
      | Inr f \<Rightarrow> callf f this [Arguments args] s)"

subsection \<open>The states \<^verbatim>\<open>create\<close> passes through\<close>

text \<open>
  \<open>cloned s t\<close> is the state after \<^verbatim>\<open>this.clone()\<close> on the object \<open>t\<close>: the clone is at
  \<open>fresh s\<close>. \<open>sealed s a\<close> is the state after \<^verbatim>\<open>Object.seal\<close> of the object \<open>a\<close>.
\<close>

definition cloned :: "state \<Rightarrow> nat \<Rightarrow> state" where
  "cloned s t =
     snd (alloc s \<lparr>proto = Obj t, own_props = [], extensible = True, code = None\<rparr>)"


text \<open>\<open>allocated s\<close>: every address from \<open>fresh s\<close> on is free.\<close>

definition allocated :: "state \<Rightarrow> bool" where
  "allocated s = (\<forall>x. fresh s \<le> x \<longrightarrow> heap s x = None)"

subsection \<open>\<^verbatim>\<open>do\<close>\<close>

text \<open>
  The comparison \<^verbatim>\<open>a == b\<close> where no conversion is needed: two values of one type,
  two references, or \<^verbatim>\<open>null\<close> and \<^verbatim>\<open>undefined\<close>.
\<close>

definition loose_eq :: "jsval \<Rightarrow> jsval \<Rightarrow> stop + bool" where
  "loose_eq a b =
     (if a = NaN \<or> b = NaN then Inr False
      else if (a = Undefined \<or> a = Null) \<and> (b = Undefined \<or> b = Null) then Inr True
      else if a = Undefined \<or> a = Null \<or> b = Undefined \<or> b = Null then Inr False
      else if addr_of a \<noteq> None \<and> addr_of b \<noteq> None then Inr (a = b)
      else if addr_of a = None \<and> addr_of b = None \<and> typeof a = typeof b \<and>
              typeof a \<noteq> ''object'' \<and> typeof a \<noteq> ''function'' then Inr (a = b)
      else Inl (Unmodelled ''comparison with a conversion''))"

text \<open>
  \<^verbatim>\<open>do(methodName, args, withObj, asObj)\<close>: with two arguments the second is
  \<^verbatim>\<open>withObj\<close>. The method is taken from \<^verbatim>\<open>withObj\<close> itself when it has one of the same
  arity as this object's, from this object otherwise, and applied to \<^verbatim>\<open>withObj\<close>.
\<close>

definition do_target :: "state \<Rightarrow> jsval \<Rightarrow> string \<Rightarrow> jsval \<Rightarrow> jsval \<Rightarrow> stop + jsval" where
  "do_target s this m withObj asObj =
     (if \<not> truthy asObj then
        (case js_get s withObj m of
           Inl e \<Rightarrow> Inl e
         | Inr wm \<Rightarrow>
             if typeof wm \<noteq> ''function'' then Inr this
             else (case js_get s wm ''length'' of
                     Inl e \<Rightarrow> Inl e
                   | Inr l1 \<Rightarrow>
                       (case js_get s this m of
                          Inl e \<Rightarrow> Inl e
                        | Inr tm \<Rightarrow>
                            (case js_get s tm ''length'' of
                               Inl e \<Rightarrow> Inl e
                             | Inr l2 \<Rightarrow>
                                 (case loose_eq l1 l2 of
                                    Inl e \<Rightarrow> Inl e
                                  | Inr same \<Rightarrow>
                                      Inr (if same \<and> truthy withObj then withObj else this))))))
      else (case js_get s asObj ''prototype'' of
              Inl e \<Rightarrow> Inl e
            | Inr p \<Rightarrow> Inr (if truthy p \<and> typeof asObj = ''function'' then p else asObj)))"

definition lib_do :: "interp \<Rightarrow> jsval \<Rightarrow> jsval list \<Rightarrow> state \<Rightarrow> result" where
  "lib_do callf this arguments s =
     (case arg arguments 0 of
        Str m \<Rightarrow>
          (let args = (if length arguments = 2 then Undefined else arg arguments 1);
               withObj = (if length arguments = 2 then arg arguments 1 else arg arguments 2)
           in case do_target s this m withObj (arg arguments 3) of
                Inl e \<Rightarrow> Some (Inl e, s)
              | Inr asObj \<Rightarrow>
                  (case js_get s asObj m of
                     Inl e \<Rightarrow> Some (Inl e, s)
                   | Inr f \<Rightarrow>
                       if typeof f \<noteq> ''function'' then Some (Inl TypeError, s)
                       else (case apply_args args of
                               Inl e \<Rightarrow> Some (Inl e, s)
                             | Inr vs \<Rightarrow> callf f withObj vs s)))
      | _ \<Rightarrow> Some (Inl (Unmodelled ''property name that is no string''), s))"

subsection \<open>\<^verbatim>\<open>copy\<close>, \<^verbatim>\<open>deepCopy\<close>, \<^verbatim>\<open>deepClone\<close> and \<^verbatim>\<open>mix\<close>\<close>

text \<open>
  \<^verbatim>\<open>if(typeof(v)=='function' && Object.getOwnPropertyNames(v.prototype)) v = v.prototype\<close>:
  the list of names is truthy whenever the call returns.
\<close>

definition prototype_if_function :: "state \<Rightarrow> jsval \<Rightarrow> stop + jsval" where
  "prototype_if_function s v =
     (if typeof v \<noteq> ''function'' then Inr v
      else (case js_get s v ''prototype'' of
              Inl e \<Rightarrow> Inl e
            | Inr p \<Rightarrow> (case getOwnPropertyNames s p of Inl e \<Rightarrow> Inl e | Inr names \<Rightarrow> Inr p)))"

text \<open>
  \<^verbatim>\<open>parentsLevel--\<close> as a condition: whether the old value, as a number, is truthy,
  and the new value.
\<close>

definition post_decrement :: "jsval \<Rightarrow> stop + bool \<times> jsval" where
  "post_decrement v =
     (case v of
        Num n \<Rightarrow> Inr (n \<noteq> 0, Num (n - 1))
      | NaN \<Rightarrow> Inr (False, NaN)
      | Infinity \<Rightarrow> Inr (True, Infinity)
      | Undefined \<Rightarrow> Inr (False, NaN)
      | Null \<Rightarrow> Inr (False, Num (- 1))
      | Bool b \<Rightarrow> Inr (b, Num (if b then 0 else - 1))
      | _ \<Rightarrow> Inl (Unmodelled ''conversion to a number''))"

text \<open>
  The arguments of \<^verbatim>\<open>copy\<close>. The function is not in strict mode, so each of its four
  parameters is the same variable as the element of \<^verbatim>\<open>arguments\<close> at its position, as
  far as arguments were passed: \<open>params\<close> holds the four parameters, and
  \<open>argument_at params args j\<close> is \<^verbatim>\<open>arguments[j]\<close> as the loop finds it.
\<close>

definition argument_at :: "jsval list \<Rightarrow> jsval list \<Rightarrow> nat \<Rightarrow> jsval" where
  "argument_at params args j =
     (if j < length args then (if j < length params then params ! j else args ! j)
      else Undefined)"

text \<open>The \<^verbatim>\<open>switch(typeof value)\<close>: the parameter that the type of \<open>value\<close> selects is
  assigned; a function or \<^verbatim>\<open>undefined\<close> selects none.\<close>

definition assign_by_type :: "jsval \<Rightarrow> jsval list \<Rightarrow> jsval list" where
  "assign_by_type v params =
     (if typeof v = ''string'' then params[0 := v]
      else if typeof v = ''object'' then params[1 := v]
      else if typeof v = ''number'' then params[2 := v]
      else if typeof v = ''boolean'' then params[3 := v]
      else params)"

text \<open>
  \<^verbatim>\<open>for(var i=0, value=arguments[i]; i < arguments.length; value=arguments[++i])\<close>: the
  rounds for the indices listed, \<open>value\<close> read before the round; the next \<open>value\<close> is read
  after the assignment of the round.
\<close>

fun copy_scan :: "jsval list \<Rightarrow> nat list \<Rightarrow> jsval \<Rightarrow> jsval list \<Rightarrow> jsval list" where
  "copy_scan args [] v params = params"
| "copy_scan args (i # rest) v params =
     (let params' = assign_by_type v params
      in copy_scan args rest (argument_at params' args (Suc i)) params')"

definition copy_arguments :: "jsval list \<Rightarrow> jsval \<times> jsval \<times> jsval \<times> jsval" where
  "copy_arguments args =
     (let params = [arg args 0, arg args 1, arg args 2, arg args 3];
          final = copy_scan args [0..<length args] (argument_at params args 0) params
      in (final ! 0, final ! 1, final ! 2, final ! 3))"

text \<open>
  \<^verbatim>\<open>if( deepMethod != 'deepCopy' || deepMethod != 'deepClone'){ deepMethod = null; }\<close>
\<close>

definition checked_deepMethod :: "jsval \<Rightarrow> jsval" where
  "checked_deepMethod deepMethod =
     (if deepMethod \<noteq> Str ''deepCopy'' \<or> deepMethod \<noteq> Str ''deepClone'' then Null
      else deepMethod)"

text \<open>
  The inner loop of \<^verbatim>\<open>copy\<close> (and, with \<open>deepMethod = Null\<close>, of \<^verbatim>\<open>mix\<close>): every own
  property of the source is defined on \<open>updateObj\<close> from its descriptor, the value
  replaced by \<^verbatim>\<open>$object[deepMethod].call(sourceObj[name])\<close> when a deep method is set
  and the value is an object.
\<close>

fun copy_props :: "interp \<Rightarrow> jsval \<Rightarrow> nat \<Rightarrow> nat \<Rightarrow> string list \<Rightarrow> state \<Rightarrow> result" where
  "copy_props callf deepMethod src upd [] s = Some (Inr Undefined, s)"
| "copy_props callf deepMethod src upd (name # names) s =
     (case own_prop s src name of
        None \<Rightarrow> Some (Inl TypeError, s)
      | Some p \<Rightarrow>
          and_then
            (if truthy deepMethod \<and> typeof (p_value p) = ''object''
             then (case deepMethod of
                     Str k \<Rightarrow>
                       (case js_get s (Obj dollar_object) k of
                          Inl e \<Rightarrow> Some (Inl e, s)
                        | Inr f \<Rightarrow> callf f (p_value p) [] s)
                   | _ \<Rightarrow> Some (Inl (Unmodelled ''property name that is no string''), s))
             else Some (Inr (p_value p), s))
            (\<lambda>v s1.
               case define_own_property s1 upd name ((pdesc_of_prop p)\<lparr>pd_value := Some v\<rparr>) of
                 Inl e \<Rightarrow> Some (Inl e, s1)
               | Inr s2 \<Rightarrow> copy_props callf deepMethod src upd names s2))"

text \<open>\<^verbatim>\<open>$object.do('clone', updateObj)\<close>\<close>

definition do_clone :: "interp \<Rightarrow> jsval \<Rightarrow> state \<Rightarrow> result" where
  "do_clone callf updateObj s =
     (case js_get s (Obj dollar_object) ''do'' of
        Inl e \<Rightarrow> Some (Inl e, s)
      | Inr f \<Rightarrow> callf f (Obj dollar_object) [Str ''clone'', updateObj] s)"

text \<open>
  The \<^verbatim>\<open>do ... while( parentsLevel-- && sourceObj != Object.prototype )\<close> of
  \<^verbatim>\<open>copy\<close>; the first argument bounds the number of rounds.
\<close>

fun copy_loop ::
  "nat \<Rightarrow> interp \<Rightarrow> jsval \<Rightarrow> jsval \<Rightarrow> jsval \<Rightarrow> jsval \<Rightarrow> jsval \<Rightarrow> state \<Rightarrow> result" where
  "copy_loop 0 callf deepMethod mixParents sourceObj updateObj parentsLevel s = None"
| "copy_loop (Suc n) callf deepMethod mixParents sourceObj updateObj parentsLevel s =
     (case prototype_if_function s sourceObj of
        Inl e \<Rightarrow> Some (Inl e, s)
      | Inr src \<Rightarrow>
          (case as_object src of
             Inl e \<Rightarrow> Some (Inl e, s)
           | Inr a \<Rightarrow>
               (case own_names s a of
                  Inl e \<Rightarrow> Some (Inl e, s)
                | Inr names \<Rightarrow>
                    and_then
                      (if \<not> truthy mixParents \<and> names \<noteq> [] then do_clone callf updateObj s
                       else Some (Inr updateObj, s))
                      (\<lambda>upd s1.
                         case as_object upd of
                           Inl e \<Rightarrow> Some (Inl e, s1)
                         | Inr u \<Rightarrow>
                             and_then (copy_props callf deepMethod a u names s1)
                               (\<lambda>r s2.
                                  case getPrototypeOf s2 src of
                                    Inl e \<Rightarrow> Some (Inl e, s2)
                                  | Inr up \<Rightarrow>
                                      (case post_decrement parentsLevel of
                                         Inl e \<Rightarrow> Some (Inl e, s2)
                                       | Inr (go, level) \<Rightarrow>
                                           if go \<and> up \<noteq> Obj object_prototype
                                           then copy_loop n callf deepMethod mixParents up upd
                                                  level s2
                                           else Some (Inr Undefined, s2)))))))"

definition lib_copy :: "nat \<Rightarrow> interp \<Rightarrow> jsval \<Rightarrow> jsval list \<Rightarrow> state \<Rightarrow> result" where
  "lib_copy n callf this args s =
     (case copy_arguments args of (deepMethod, rootPrototype, parentsLevel, mixParents) \<Rightarrow>
        (case (if typeof rootPrototype = ''undefined'' then Inr (Obj dollar_object)
               else prototype_if_function s rootPrototype) of
           Inl e \<Rightarrow> Some (Inl e, s)
         | Inr root \<Rightarrow>
             (case object_create s root of
                Inl e \<Rightarrow> Some (Inl e, s)
              | Inr (newObj, s1) \<Rightarrow>
                  and_then
                    (copy_loop n callf (checked_deepMethod deepMethod) mixParents this
                       (Obj newObj) parentsLevel s1)
                    (\<lambda>r s2. Some (Inr (Obj newObj), s2)))))"

text \<open>
  The loops of \<^verbatim>\<open>deepCopy\<close> (\<open>every = True\<close>: each own property is defined on the
  result) and \<^verbatim>\<open>deepClone\<close> (\<open>every = False\<close>: only the object-valued ones); an
  object-valued property gets the result of the function applied to it.
\<close>

fun deep_props ::
  "bool \<Rightarrow> jsval \<Rightarrow> interp \<Rightarrow> nat \<Rightarrow> nat \<Rightarrow> string list \<Rightarrow> state \<Rightarrow> result" where
  "deep_props every callee callf src target [] s = Some (Inr Undefined, s)"
| "deep_props every callee callf src target (name # names) s =
     (case own_prop s src name of
        None \<Rightarrow> if every then Some (Inl TypeError, s)
               else deep_props every callee callf src target names s
      | Some p \<Rightarrow>
          if typeof (p_value p) = ''object'' then
            and_then (callf callee (p_value p) [] s)
              (\<lambda>v s1.
                 case define_own_property s1 target name ((pdesc_of_prop p)\<lparr>pd_value := Some v\<rparr>) of
                   Inl e \<Rightarrow> Some (Inl e, s1)
                 | Inr s2 \<Rightarrow> deep_props every callee callf src target names s2)
          else if every then
            (case define_own_property s target name (pdesc_of_prop p) of
               Inl e \<Rightarrow> Some (Inl e, s)
             | Inr s2 \<Rightarrow> deep_props every callee callf src target names s2)
          else deep_props every callee callf src target names s)"

definition deep_into :: "bool \<Rightarrow> jsval \<Rightarrow> interp \<Rightarrow> jsval \<Rightarrow> jsval \<Rightarrow> state \<Rightarrow> result" where
  "deep_into every callee callf this ob s =
     (case as_object this of
        Inl e \<Rightarrow> Some (Inl e, s)
      | Inr a \<Rightarrow>
          (case own_names s a of
             Inl e \<Rightarrow> Some (Inl e, s)
           | Inr names \<Rightarrow>
               (case as_object ob of
                  Inl e \<Rightarrow> if names = [] then Some (Inr ob, s) else Some (Inl e, s)
                | Inr target \<Rightarrow>
                    and_then (deep_props every callee callf a target names s)
                      (\<lambda>r s1. Some (Inr ob, s1)))))"

text \<open>\<^verbatim>\<open>var obj = arguments.length ? $object.do('copy', arguments, this) : {};\<close>\<close>

definition lib_deepCopy :: "jsval \<Rightarrow> interp \<Rightarrow> jsval \<Rightarrow> jsval list \<Rightarrow> state \<Rightarrow> result" where
  "lib_deepCopy callee callf this args s =
     and_then
       (if args \<noteq> [] then
          (case js_get s (Obj dollar_object) ''do'' of
             Inl e \<Rightarrow> Some (Inl e, s)
           | Inr f \<Rightarrow> callf f (Obj dollar_object) [Str ''copy'', Arguments args, this] s)
        else (let (a, s1) = alloc_literal s [] in Some (Inr (Obj a), s1)))
       (\<lambda>ob s1. deep_into True callee callf this ob s1)"

text \<open>\<^verbatim>\<open>var obj = $object.do('clone', arguments, this);\<close>\<close>

definition lib_deepClone :: "jsval \<Rightarrow> interp \<Rightarrow> jsval \<Rightarrow> jsval list \<Rightarrow> state \<Rightarrow> result" where
  "lib_deepClone callee callf this args s =
     and_then
       (case js_get s (Obj dollar_object) ''do'' of
          Inl e \<Rightarrow> Some (Inl e, s)
        | Inr f \<Rightarrow> callf f (Obj dollar_object) [Str ''clone'', Arguments args, this] s)
       (\<lambda>ob s1. deep_into False callee callf this ob s1)"

text \<open>
  \<^verbatim>\<open>mix\<close> (the legacy revision has it). The parameters: a boolean second argument is
  \<^verbatim>\<open>copyNesting\<close> when the third is missing, and \<^verbatim>\<open>copyNesting\<close> defaults to true.
\<close>

definition mix_arguments :: "jsval list \<Rightarrow> jsval \<times> jsval" where
  "mix_arguments args =
     (if arg args 2 = Undefined
      then (if typeof (arg args 1) = ''boolean'' then (Num 0, arg args 1)
            else (arg args 1, Bool True))
      else (arg args 1, arg args 2))"

text \<open>
  \<^verbatim>\<open>do mixedObjects.push(obj); while( parentsLevel-- && (obj =
  Object.getPrototypeOf(obj)) != Object.prototype )\<close>
\<close>

fun parents :: "nat \<Rightarrow> state \<Rightarrow> jsval \<Rightarrow> jsval \<Rightarrow> (stop + jsval list) option" where
  "parents 0 s ob parentsLevel = None"
| "parents (Suc n) s ob parentsLevel =
     (case post_decrement parentsLevel of
        Inl e \<Rightarrow> Some (Inl e)
      | Inr (go, level) \<Rightarrow>
          if \<not> go then Some (Inr [ob])
          else (case getPrototypeOf s ob of
                  Inl e \<Rightarrow> Some (Inl e)
                | Inr up \<Rightarrow>
                    if up = Obj object_prototype then Some (Inr [ob])
                    else (case parents n s up level of
                            None \<Rightarrow> None
                          | Some (Inl e) \<Rightarrow> Some (Inl e)
                          | Some (Inr obs) \<Rightarrow> Some (Inr (ob # obs)))))"

text \<open>The \<^verbatim>\<open>for(var objIdx in mixedObjects)\<close> loop, over the reversed list.\<close>

fun mix_loop :: "interp \<Rightarrow> jsval \<Rightarrow> jsval \<Rightarrow> jsval list \<Rightarrow> state \<Rightarrow> result" where
  "mix_loop callf copyNesting updateObj [] s = Some (Inr updateObj, s)"
| "mix_loop callf copyNesting updateObj (ob # obs) s =
     (case prototype_if_function s ob of
        Inl e \<Rightarrow> Some (Inl e, s)
      | Inr src \<Rightarrow>
          (case as_object src of
             Inl e \<Rightarrow> Some (Inl e, s)
           | Inr a \<Rightarrow>
               (case own_names s a of
                  Inl e \<Rightarrow> Some (Inl e, s)
                | Inr names \<Rightarrow>
                    and_then
                      (if truthy copyNesting \<and> names \<noteq> [] then
                         (case js_get s (Obj dollar_object) ''clone'' of
                            Inl e \<Rightarrow> Some (Inl e, s)
                          | Inr f \<Rightarrow> callf f updateObj [] s)
                       else Some (Inr updateObj, s))
                      (\<lambda>upd s1.
                         case as_object upd of
                           Inl e \<Rightarrow> if names = [] then mix_loop callf copyNesting upd obs s1
                                    else Some (Inl e, s1)
                         | Inr u \<Rightarrow>
                             and_then (copy_props callf Null a u names s1)
                               (\<lambda>r s2. mix_loop callf copyNesting upd obs s2)))))"

definition lib_mix :: "nat \<Rightarrow> interp \<Rightarrow> jsval \<Rightarrow> jsval list \<Rightarrow> state \<Rightarrow> result" where
  "lib_mix n callf this args s =
     (case mix_arguments args of (parentsLevel, copyNesting) \<Rightarrow>
        (case (case arg args 0 of
                 Arr vs \<Rightarrow> Some (Inr vs)
               | ob \<Rightarrow> parents n s ob parentsLevel) of
           None \<Rightarrow> None
         | Some (Inl e) \<Rightarrow> Some (Inl e, s)
         | Some (Inr mixedObjects) \<Rightarrow> mix_loop callf copyNesting this (rev mixedObjects) s))"

section \<open>The interpreter\<close>

text \<open>
  \<open>lib_call n callf tbl c callee this args s\<close> runs the body \<open>c\<close>; \<open>callf\<close> is the
  interpreter for the calls the body makes, \<open>n\<close> bounds the rounds of the library's own
  loops, and \<open>tbl\<close> holds the functions of the embedding program.
\<close>

definition lib_call ::
  "nat \<Rightarrow> interp \<Rightarrow> (nat \<Rightarrow> ufun) \<Rightarrow> fcode \<Rightarrow> jsval \<Rightarrow> jsval \<Rightarrow> jsval list \<Rightarrow> state \<Rightarrow> result" where
  "lib_call n callf tbl c callee this args s =
     (case c of
        LibClone \<Rightarrow> Some (lib_clone this args s)
      | LibCreate \<Rightarrow> lib_create callf this args s
      | CloneObject \<Rightarrow> lib_CloneObject callee callf this args s
      | LibDescribe \<Rightarrow> Some (Inl (Unmodelled ''result of describe in the store''), s)
      | LibApplySuper \<Rightarrow> applySuper callf this args s
      | LibCallSuper \<Rightarrow> callSuper callf this args s
      | LibCopy \<Rightarrow> lib_copy n callf this args s
      | LibDeepCopy \<Rightarrow> lib_deepCopy callee callf this args s
      | LibDeepClone \<Rightarrow> lib_deepClone callee callf this args s
      | LibDo \<Rightarrow> lib_do callf this args s
      | LibMix \<Rightarrow> lib_mix n callf this args s
      | LibSeal \<Rightarrow> Some (lib_seal this s)
      | LibDefineProperties \<Rightarrow> Some (lib_defineProperties this args s)
      | LibDefineProperty \<Rightarrow> Some (lib_defineProperty this args s)
      | CustomType \<Rightarrow> lib_CustomType callf this args s
      | LibGetter \<Rightarrow> Some (Inl (Unmodelled ''synthesised getter''), s)
      | LibSetter \<Rightarrow> Some (Inl (Unmodelled ''synthesised setter''), s)
      | LibOther name \<Rightarrow> Some (Inl (Unmodelled name), s)
      | User k \<Rightarrow> tbl k callf this args s)"

text \<open>
  \<open>run n tbl f this args s\<close>: the call \<^verbatim>\<open>f.apply(this, args)\<close> within \<open>n\<close> nested
  calls. Calling what is no function is a \<^verbatim>\<open>TypeError\<close>; outside strict mode a call
  with \<^verbatim>\<open>this\<close> \<^verbatim>\<open>null\<close> or \<^verbatim>\<open>undefined\<close> runs on the global object, which the store
  does not hold.
\<close>

fun run :: "nat \<Rightarrow> (nat \<Rightarrow> ufun) \<Rightarrow> interp" where
  "run 0 tbl f this args s = None"
| "run (Suc n) tbl f this args s =
     (case fun_code s f of
        None \<Rightarrow> Some (Inl TypeError, s)
      | Some c \<Rightarrow>
          if this = Undefined \<or> this = Null
          then Some (Inl (Unmodelled ''this is the global object''), s)
          else lib_call n (run n tbl) tbl c f this args s)"

section \<open>The state after the library has loaded\<close>

text \<open>
  The source file holds two revisions of the library, each a script of its own that
  builds its own \<^verbatim>\<open>$object\<close>: revision 0.6.1 first, revision 0.6.0 after it. \<open>members\<close>
  are the members of \<^verbatim>\<open>$object\<close> in revision 0.6.1 and \<open>legacy_members\<close> those in revision
  0.6.0, in the order of the source, each with its body and its number of parameters.
  \<^verbatim>\<open>clone\<close>, \<^verbatim>\<open>create\<close>, the constructor, \<^verbatim>\<open>describe\<close>, \<^verbatim>\<open>_applySuper\<close> and the sugar read
  the same in both; \<^verbatim>\<open>copy\<close>, \<^verbatim>\<open>deepCopy\<close>, \<^verbatim>\<open>deepClone\<close> and \<^verbatim>\<open>do\<close> are in 0.6.1 only,
  \<^verbatim>\<open>mix\<close> and \<^verbatim>\<open>toString\<close> in 0.6.0 only. Either script ends with
  \<^verbatim>\<open>$object.defineProperties($object)\<close>, which makes every member non-enumerable (each
  is a function) and leaves it writable and configurable.
\<close>

definition members :: "(string \<times> fcode \<times> nat) list" where
  "members =
     [(''clone'', LibClone, 2), (''create'', LibCreate, 2), (''constructor'', CloneObject, 2),
      (''describe'', LibDescribe, 2), (''_applySuper'', LibApplySuper, 2),
      (''_callSuper'', LibCallSuper, 3),
      (''createSuperSafeCallback'', LibOther ''createSuperSafeCallback'', 2),
      (''getState'', LibOther ''getState'', 1), (''copy'', LibCopy, 4),
      (''deepCopy'', LibDeepCopy, 0), (''deepClone'', LibDeepClone, 2), (''do'', LibDo, 4),
      (''can'', LibOther ''can'', 2), (''cant'', LibOther ''cant'', 1),
      (''getPrototype'', LibOther ''getPrototype'', 0),
      (''getEnumerableOwnPropertyNames'', LibOther ''getEnumerableOwnPropertyNames'', 0),
      (''getOwnPropertyNames'', LibOther ''getOwnPropertyNames'', 0),
      (''preventExtensions'', LibOther ''preventExtensions'', 0),
      (''isExtensible'', LibOther ''isExtensible'', 0), (''seal'', LibSeal, 0),
      (''isSealed'', LibOther ''isSealed'', 0), (''freeze'', LibOther ''freeze'', 0),
      (''isFrozen'', LibOther ''isFrozen'', 0),
      (''getOwnPropertyDescriptor'', LibOther ''getOwnPropertyDescriptor'', 1),
      (''defineProperties'', LibDefineProperties, 2),
      (''defineProperty'', LibDefineProperty, 2)]"

definition legacy_members :: "(string \<times> fcode \<times> nat) list" where
  "legacy_members =
     [(''clone'', LibClone, 2), (''create'', LibCreate, 2), (''constructor'', CloneObject, 2),
      (''describe'', LibDescribe, 2), (''_applySuper'', LibApplySuper, 2),
      (''_callSuper'', LibCallSuper, 3),
      (''createSuperSafeCallback'', LibOther ''createSuperSafeCallback'', 2),
      (''getState'', LibOther ''getState'', 1), (''mix'', LibMix, 3),
      (''can'', LibOther ''can'', 2), (''cant'', LibOther ''cant'', 1),
      (''toString'', LibOther ''toString'', 0),
      (''getPrototype'', LibOther ''getPrototype'', 0),
      (''getEnumerableOwnPropertyNames'', LibOther ''getEnumerableOwnPropertyNames'', 0),
      (''getOwnPropertyNames'', LibOther ''getOwnPropertyNames'', 0),
      (''preventExtensions'', LibOther ''preventExtensions'', 0),
      (''isExtensible'', LibOther ''isExtensible'', 0), (''seal'', LibSeal, 0),
      (''isSealed'', LibOther ''isSealed'', 0), (''freeze'', LibOther ''freeze'', 0),
      (''isFrozen'', LibOther ''isFrozen'', 0),
      (''getOwnPropertyDescriptor'', LibOther ''getOwnPropertyDescriptor'', 1),
      (''defineProperties'', LibDefineProperties, 2),
      (''defineProperty'', LibDefineProperty, 2)]"

text \<open>
  After a script has run the store holds \<^verbatim>\<open>Object.prototype\<close> at 0,
  \<^verbatim>\<open>Function.prototype\<close> at 1, \<^verbatim>\<open>$object\<close> at 2, and for the member number \<open>k\<close> its
  function object at \<open>3 + 2k\<close> and that function's \<^verbatim>\<open>prototype\<close> object at \<open>4 + 2k\<close>:
  \<open>loaded_heap\<close> for a list of members, \<open>library\<close> for revision 0.6.1 and
  \<open>legacy_library\<close> for revision 0.6.0.
\<close>

definition member_props :: "nat \<Rightarrow> (string \<times> fcode \<times> nat) list \<Rightarrow> (string \<times> property) list" where
  "member_props base ms =
     map (\<lambda>(k, m). (fst m, \<lparr>p_value = Fun (At (base + 2 * k)), p_writable = True,
                             p_enumerable = False, p_configurable = True\<rparr>))
       (enumerate 0 ms)"

definition loaded_heap :: "(string \<times> fcode \<times> nat) list \<Rightarrow> nat \<Rightarrow> obj option" where
  "loaded_heap ms a =
     (if a = object_prototype
      then Some \<lparr>proto = Null, own_props = [], extensible = True, code = None\<rparr>
      else if a = function_prototype
      then Some \<lparr>proto = Obj object_prototype, own_props = [], extensible = True,
                 code = Some (LibOther ''Function.prototype'')\<rparr>
      else if a = dollar_object
      then Some \<lparr>proto = Obj object_prototype, own_props = member_props 3 ms,
                 extensible = True, code = None\<rparr>
      else if a < 3 + 2 * length ms
      then (if odd a
            then (case ms ! ((a - 3) div 2) of
                    (name, c, arity) \<Rightarrow> Some (function_object a c arity))
            else Some (prototype_object (a - 1)))
      else None)"

definition library_heap :: "nat \<Rightarrow> obj option" where
  "library_heap = loaded_heap members"

definition legacy_heap :: "nat \<Rightarrow> obj option" where
  "legacy_heap = loaded_heap legacy_members"

definition library :: state where
  "library = \<lparr>heap = library_heap, fresh = 3 + 2 * length members, trace = []\<rparr>"

definition legacy_library :: state where
  "legacy_library =
     \<lparr>heap = legacy_heap, fresh = 3 + 2 * length legacy_members, trace = []\<rparr>"

section \<open>Methods and chains of the dispatch scenarios\<close>



definition final_method :: "jsval \<Rightarrow> ufun" where
  "final_method l callf this args s = Some (Inr Undefined, s\<lparr>trace := trace s @ [l]\<rparr>)"


text \<open>
  \<open>method_at s x m\<close>: the body of the function that the object \<open>x\<close> holds as its own data
  property \<open>m\<close>, if it holds one.
\<close>

definition method_at :: "state \<Rightarrow> nat \<Rightarrow> string \<Rightarrow> fcode option" where
  "method_at s x m =
     (case own_prop s x m of None \<Rightarrow> None | Some p \<Rightarrow> fun_code s (p_value p))"


text \<open>
  \<open>logging_chain e s tbl m x ls\<close>: from \<open>x\<close> upwards there is one level per label of
  \<open>ls\<close>, each defining \<open>m\<close> as the logging method with that label. The object above the
  last level either defines \<open>m\<close> as a method that only returns (\<open>Returning\<close>), or no
  object from there on has \<open>m\<close> (\<open>Missing\<close>).
\<close>

definition returning_method :: ufun where
  "returning_method callf this args s = Some (Inr Undefined, s)"



text \<open>\<open>library_method s x name c\<close>: read from \<open>x\<close>, \<open>name\<close> is a function with body \<open>c\<close>.\<close>

definition library_method :: "state \<Rightarrow> nat \<Rightarrow> string \<Rightarrow> fcode \<Rightarrow> bool" where
  "library_method s x name c =
     (case find_prop (heap s) x name of
        None \<Rightarrow> False
      | Some p \<Rightarrow> fun_code s (p_value p) = Some c)"

text \<open>\<open>instance_of s i c\<close>: \<open>i\<close> is a clone of \<open>c\<close> as \<^verbatim>\<open>clone()\<close> leaves it: extensible,
  without properties of its own.\<close>

definition instance_of :: "state \<Rightarrow> nat \<Rightarrow> nat \<Rightarrow> bool" where
  "instance_of s i c =
     (case heap s i of
        None \<Rightarrow> False
      | Some ob \<Rightarrow> proto ob = Obj c \<and> c < i \<and> extensible ob \<and> own_props ob = [] \<and> code ob = None)"

text \<open>
  \<open>plain_host s\<close>: the next address is free, and \<^verbatim>\<open>Object.prototype\<close> is in the store,
  at the root, without a key that a property descriptor could inherit.
\<close>

definition plain_host :: "state \<Rightarrow> bool" where
  "plain_host s =
     (heap s (fresh s) = None \<and> object_prototype < fresh s \<and>
      (case heap s object_prototype of
         None \<Rightarrow> False
       | Some ob \<Rightarrow>
           proto ob = Null \<and>
           list_all (\<lambda>k. map_of (own_props ob) k = None)
             [''value'', ''get'', ''set'', ''writable'', ''enumerable'', ''configurable'']))"

text \<open>The cursor of an object: its own property \<^verbatim>\<open>__super__\<close>.\<close>

definition cursor :: "state \<Rightarrow> nat \<Rightarrow> property option" where
  "cursor s i = own_prop s i ''__super__''"

text \<open>
  The state after the first dispatch from \<open>i\<close> has defined the cursor: the descriptor
  literal is allocated and \<open>i\<close> has the one property \<^verbatim>\<open>__super__\<close>, writable and
  configurable, not enumerable.
\<close>

definition cursor_property :: "jsval \<Rightarrow> property" where
  "cursor_property g =
     \<lparr>p_value = g, p_writable = True, p_enumerable = False, p_configurable = True\<rparr>"

definition with_cursor :: "state \<Rightarrow> nat \<Rightarrow> jsval \<Rightarrow> state" where
  "with_cursor s i g =
     set_props
       (snd (alloc_literal s
          [(''value'', g), (''writable'', Bool True), (''configurable'', Bool True)]))
       i [(''__super__'', cursor_property g)]"

section \<open>Example stores\<close>

text \<open>
  A clone that holds one method, as \<^verbatim>\<open>parent.clone({m: function(){...}})\<close> leaves it (a
  function-valued property is not enumerable), a clone without properties, as
  \<^verbatim>\<open>parent.clone()\<close> leaves it, and an object literal.
\<close>

definition method_holder :: "nat \<Rightarrow> string \<Rightarrow> nat \<Rightarrow> obj" where
  "method_holder parent m f =
     \<lparr>proto = Obj parent,
      own_props = [(m, \<lparr>p_value = Fun (At f), p_writable = True,
                         p_enumerable = False, p_configurable = True\<rparr>)],
      extensible = True, code = None\<rparr>"

definition empty_clone :: "nat \<Rightarrow> obj" where
  "empty_clone parent = \<lparr>proto = Obj parent, own_props = [], extensible = True, code = None\<rparr>"

definition literal :: "(string \<times> jsval) list \<Rightarrow> obj" where
  "literal kvs =
     \<lparr>proto = Obj object_prototype,
      own_props = map (\<lambda>(k, v). (k, \<lparr>p_value = v, p_writable = True,
                                       p_enumerable = True, p_configurable = True\<rparr>)) kvs,
      extensible = True, code = None\<rparr>"









text \<open>
  A store without the library: \<^verbatim>\<open>Object.prototype\<close> at 0, \<^verbatim>\<open>Function.prototype\<close> at 1,
  a function at 2, \<^verbatim>\<open>A = {m: that function}\<close> at 4, \<^verbatim>\<open>B\<close> at 5 delegating to \<^verbatim>\<open>A\<close>, and
  at 6 an object delegating to \<^verbatim>\<open>B\<close> whose cursor is \<^verbatim>\<open>A\<close>, as an earlier dispatch has
  left it. \<open>thrower\<close> is \<^verbatim>\<open>function(){ throw 'stop'; }\<close>.
\<close>

definition dispatching :: state where
  "dispatching =
     \<lparr>heap = [0 \<mapsto> \<lparr>proto = Null, own_props = [], extensible = True, code = None\<rparr>,
              1 \<mapsto> \<lparr>proto = Obj 0, own_props = [], extensible = True,
                     code = Some (LibOther ''Function.prototype'')\<rparr>,
              2 \<mapsto> function_object 2 (User 0) 0,
              3 \<mapsto> prototype_object 2,
              4 \<mapsto> method_holder 0 ''m'' 2,
              5 \<mapsto> empty_clone 4,
              6 \<mapsto> \<lparr>proto = Obj 5, own_props = [(''__super__'', cursor_property (Obj 4))],
                     extensible = True, code = None\<rparr>],
      fresh = 7, trace = []\<rparr>"

definition thrower :: ufun where
  "thrower callf this args s = Some (Inl (Thrown (Str ''stop'')), s)"


text \<open>
  Revision 0.6.1 loaded, then a function \<^verbatim>\<open>fn\<close> at 55 and the object literal
  \<^verbatim>\<open>{'(get) y': fn}\<close> at 57.
\<close>

definition with_getter :: state where
  "with_getter =
     \<lparr>heap = library_heap
        (55 \<mapsto> function_object 55 (User 0) 0, 56 \<mapsto> prototype_object 55,
         57 \<mapsto> literal [(''(get) y'', Fun (At 55))]),
      fresh = 58, trace = []\<rparr>"




text \<open>
  Revision 0.6.1 loaded, then \<^verbatim>\<open>inner = {x: 1}\<close> at 55 and \<^verbatim>\<open>src = {a: inner}\<close> at 56.
\<close>

definition nested_source :: state where
  "nested_source =
     \<lparr>heap = library_heap(55 \<mapsto> literal [(''x'', Num 1)], 56 \<mapsto> literal [(''a'', Obj 55)]),
      fresh = 57, trace = []\<rparr>"

section \<open>Properties of \<^verbatim>\<open>describe\<close>\<close>

lemmas describe_eval =
  describe_def describe_in_def pristine_def describe_run_def describe_entry_def parse_name_def match_name_def
  match_tail_def flag_words_def strip_word_def line_terminator_def store_entry_def
  accessor_or_value_def hide_def apply_prefix_def set_own_def read_key_def has_key_def
  no_attrs_def baseline_def default_of_def hiding_allowed_def host_members_def

text \<open>
  C9. For the input map \<^verbatim>\<open>{"(final) x": 1}\<close> the result has the single key \<^verbatim>\<open>x\<close>, and the
  attributes the host reads from its record are value 1, writable false, configurable
  false and enumerable true (the last inherited from the baseline), with no getter and
  no setter.
\<close>

theorem describe_final_x: "map_sum id (map (\<lambda>(n, d). (n, effective d))) (describe [(''(final) x'', Num 1)] None) =
   Inr [(''x'', \<lparr>d_value = Some (Num 1), d_get = None, d_set = None,
      d_writable = Some (Bool False), d_enumerable = Some (Bool True),
      d_configurable = Some (Bool False)\<rparr>)]"
  by (simp add: describe_eval effective_def)

lemma describe_loop_invariant:
  assumes "describe_loop dflt ha es st = Inr st'"
    and "I st"
    and "\<And>e s s1. e \<in> set es \<Longrightarrow> I s \<Longrightarrow> describe_entry dflt ha e s = Inr s1 \<Longrightarrow> I s1"
  shows "I st'"
  using assms
proof (induction es arbitrary: st)
  case Nil
  then show ?case by simp
next
  case (Cons e es)
  from Cons.prems(1) obtain s1 where e1: "describe_entry dflt ha e st = Inr s1"
    and rest: "describe_loop dflt ha es s1 = Inr st'"
    by (auto split: sum.splits)
  have s1: "I s1" by (rule Cons.prems(3) [OF _ Cons.prems(2) e1]) simp
  show ?case
  proof (rule Cons.IH [OF rest s1])
    fix e' s s2
    assume "e' \<in> set es" "I s" "describe_entry dflt ha e' s = Inr s2"
    then show "I s2" by (intro Cons.prems(3) [of e' s s2]) simp_all
  qed
qed

lemma own_set_own [simp]: "own (set_own f d) = f (own d)"
  by (simp add: set_own_def)

lemma fallback_set_own [simp]: "fallback (set_own f d) = fallback d"
  by (simp add: set_own_def)

lemma has_key_set_own:
  "has_key g (set_own f d) = or_else (g (f (own d))) (g (fallback d))"
  by (simp add: has_key_def)


lemma store_entry_lookup:
  assumes "store_entry ha name v d st = Inr s1"
  shows "map_of (descriptors s1) =
           (map_of (descriptors st))(name \<mapsto>
              hide ha name (fst (snd (accessor_or_value v d (hiddenPropertyName st))))
               (fst (accessor_or_value v d (hiddenPropertyName st))))"
proof (cases "accessor_or_value v d (hiddenPropertyName st)")
  case (fields d2 v2 hp)
  with assms show ?thesis
    by (cases "name = ''__proto__''") (auto simp: store_entry_def update_conv' Let_def)
qed

lemma describe_entry_lookup:
  assumes "describe_entry dflt ha e st = Inr s1"
  shows "store_entry ha (fst (entry_target dflt e st)) (snd e) (snd (entry_target dflt e st)) st = Inr s1"
proof (cases "parse_name (fst e)")
  case None
  with assms show ?thesis by (simp add: describe_entry_def entry_target_def)
next
  case (Some pn)
  obtain prefixes name where pn: "pn = (prefixes, name)" by (cases pn)
  show ?thesis
  proof (cases "map_of (descriptors st) name")
    case None
    with assms Some pn show ?thesis
      by (cases "name \<in> set host_members")
        (simp_all add: describe_entry_def entry_target_def found_record_def)
  next
    case (Some d)
    with assms \<open>parse_name (fst e) = Some pn\<close> pn show ?thesis
      by (simp add: describe_entry_def entry_target_def found_record_def)
  qed
qed

lemma entry_target_name: "fst (entry_target dflt e st) = bare_name (fst e)"
  by (simp add: entry_target_def bare_name_def split: option.splits)

lemma store_entry_total:
  "name \<noteq> ''__proto__'' \<Longrightarrow> \<exists>s1. store_entry ha name v d st = Inr s1"
  by (simp add: store_entry_def Let_def split: prod.splits)

lemma describe_entry_store:
  "describe_entry dflt ha e st =
     store_entry ha (fst (entry_target dflt e st)) (snd e) (snd (entry_target dflt e st)) st"
  by (simp add: describe_entry_def entry_target_def found_record_def Let_def
      split: option.splits prod.splits)

lemma describe_loop_total:
  "no_proto props \<Longrightarrow> \<exists>st'. describe_loop dflt ha props st = Inr st'"
proof (induction props arbitrary: st)
  case Nil
  then show ?case by simp
next
  case (Cons e es)
  from Cons.prems have e: "bare_name (fst e) \<noteq> ''__proto__''" and es: "no_proto es"
    by (simp_all add: no_proto_def)
  from store_entry_total [where name = "bare_name (fst e)" and ha = ha and v = "snd e"
      and d = "snd (entry_target dflt e st)" and st = st] e
  obtain s1 where "describe_entry dflt ha e st = Inr s1"
    by (auto simp: describe_entry_store entry_target_name)
  with Cons.IH [OF es, of s1] show ?case by simp
qed

lemma describe_total:
  "no_proto props \<Longrightarrow> \<exists>ds h'. describe_in h props dd = Inr (ds, h')"
  using describe_loop_total [of props "default_of dd" "hiding_allowed dd"
      "\<lparr>descriptors = [], hiddenPropertyName = None, host = h\<rparr>"]
  by (auto simp: describe_in_def describe_run_def)

lemma describe_in_run:
  assumes "describe_in h props dd = Inr (ds, h')"
  shows "\<exists>st. describe_run h props dd = Inr st \<and> ds = descriptors st"
  using assms by (auto simp: describe_in_def split: sum.splits)


lemma describe_entry_map:
  assumes "describe_entry dflt ha e st = Inr s1"
    and "entry_target dflt e st = (name, d)"
    and "accessor_or_value (snd e) d (hiddenPropertyName st) = (d2, v2, hp)"
  shows "map_of (descriptors s1) = (map_of (descriptors st))(name \<mapsto> hide ha name v2 d2)"
  using store_entry_lookup [OF describe_entry_lookup [OF assms(1)]] assms(2,3) by simp

lemma accessor_or_value_undefined:
  assumes "accessor_or_value v d hp = (d2, v2, hp2)"
    and "truthy (read_key d_get d2) \<or> truthy (read_key d_set d2)"
  shows "d_value (own d2) = Some Undefined"
proof (cases "truthy (read_key d_get d) \<or> truthy (read_key d_set d)")
  case True
  with assms(1) show ?thesis
    by (cases v) (auto simp: accessor_or_value_def Let_def split: if_splits)
next
  case False
  with assms(1) have "d2 = set_own (\<lambda>a. a\<lparr>d_value := Some v\<rparr>) d"
    by (auto simp: accessor_or_value_def)
  then have "read_key d_get d2 = read_key d_get d" "read_key d_set d2 = read_key d_set d"
    by (simp_all add: read_key_def has_key_set_own) (simp_all add: has_key_def)
  with False assms(2) show ?thesis by simp
qed

lemma hide_keys:
  "d_value (own (hide ha n v d)) = d_value (own d)"
  "d_get (own (hide ha n v d)) = d_get (own d)"
  "d_set (own (hide ha n v d)) = d_set (own d)"
  "d_writable (own (hide ha n v d)) = d_writable (own d)"
  "d_configurable (own (hide ha n v d)) = d_configurable (own d)"
  "fallback (hide ha n v d) = fallback d"
  by (simp_all add: hide_def)

lemma read_key_hide:
  "read_key d_get (hide ha n v d) = read_key d_get d"
  "read_key d_set (hide ha n v d) = read_key d_set d"
  by (simp_all add: read_key_def has_key_def hide_keys)


lemma stored_shape:
  assumes "describe_in h props dd = Inr (ds, h')" and "map_of ds n = Some d"
  shows "\<exists>v d0 hp. d = hide (hiding_allowed dd) n (fst (snd (accessor_or_value v d0 hp)))
                          (fst (accessor_or_value v d0 hp))"
proof -
  let ?I = "\<lambda>s. \<forall>n d. map_of (descriptors s) n = Some d \<longrightarrow>
     (\<exists>v d0 hp. d = hide (hiding_allowed dd) n (fst (snd (accessor_or_value v d0 hp)))
                          (fst (accessor_or_value v d0 hp)))"
  from describe_in_run [OF assms(1)] obtain st
    where run: "describe_run h props dd = Inr st" and ds: "ds = descriptors st" by blast
  have "?I st"
  proof (rule describe_loop_invariant [OF run [unfolded describe_run_def]])
    show "?I \<lparr>descriptors = [], hiddenPropertyName = None, host = h\<rparr>" by simp
  next
    fix e s s1
    assume inv: "?I s" and step: "describe_entry (default_of dd) (hiding_allowed dd) e s = Inr s1"
    obtain name d0 where tg: "entry_target (default_of dd) e s = (name, d0)"
      by (cases "entry_target (default_of dd) e s")
    obtain d2 v2 hp2 where av: "accessor_or_value (snd e) d0 (hiddenPropertyName s) = (d2, v2, hp2)"
      by (cases "accessor_or_value (snd e) d0 (hiddenPropertyName s)")
    note m = describe_entry_map [OF step tg av]
    show "?I s1"
    proof (intro allI impI)
      fix n d
      assume look: "map_of (descriptors s1) n = Some d"
      show "\<exists>v d0 hp. d = hide (hiding_allowed dd) n (fst (snd (accessor_or_value v d0 hp)))
                          (fst (accessor_or_value v d0 hp))"
      proof (cases "n = name")
        case True
        with look m have "d = hide (hiding_allowed dd) n v2 d2" by simp
        with av have "d = hide (hiding_allowed dd) n
            (fst (snd (accessor_or_value (snd e) d0 (hiddenPropertyName s))))
            (fst (accessor_or_value (snd e) d0 (hiddenPropertyName s)))" by simp
        then show ?thesis by blast
      next
        case False
        with look m have "map_of (descriptors s) n = Some d" by simp
        with inv show ?thesis by blast
      qed
    qed
  qed
  with assms(2) ds show ?thesis by blast
qed






lemma apply_prefix_fallback [simp]: "fallback (apply_prefix v p d) = fallback d"
  by (simp add: apply_prefix_def)

lemma fold_apply_prefix_fallback [simp]: "fallback (fold (apply_prefix v) ps d) = fallback d"
  by (induction ps arbitrary: d) simp_all







lemma of_host_apply_prefix [simp]: "of_host (apply_prefix v p d) = of_host d"
  by (simp add: apply_prefix_def set_own_def)

lemma of_host_fold_apply_prefix [simp]: "of_host (fold (apply_prefix v) ps d) = of_host d"
  by (induction ps arbitrary: d) simp_all

lemma of_host_accessor_or_value [simp]: "of_host (fst (accessor_or_value v d hp)) = of_host d"
  by (cases v; simp add: accessor_or_value_def Let_def set_own_def)

lemma of_host_hide [simp]: "of_host (hide ha n v d) = of_host d"
  by (simp add: hide_def set_own_def)


lemma accessor_record_rejected:
  assumes "truthy (read_key d_get d) \<or> truthy (read_key d_set d)"
    and "d_value (own d) = Some Undefined"
  shows "to_property_descriptor (effective d) = Inl TypeError"
proof -
  from assms(1) have "has_key d_get d \<noteq> None \<or> has_key d_set d \<noteq> None"
    by (auto simp: read_key_def)
  moreover from assms(2) have "has_key d_value d \<noteq> None" by (simp add: has_key_def)
  ultimately show ?thesis
    by (simp add: to_property_descriptor_def effective_def)
qed

text \<open>
  Claim C6, as the code has it. The accessor path ends with \<^verbatim>\<open>descriptor.value =
  undefined\<close>, which leaves the key \<^verbatim>\<open>value\<close> on the record. For every property map
  without an entry named \<^verbatim>\<open>__proto__\<close>, every default descriptor and every state of the
  host's members, \<^verbatim>\<open>describe\<close> returns, and a record of the result whose getter or setter
  is truthy has the key \<^verbatim>\<open>value\<close> present, holding \<^verbatim>\<open>undefined\<close>; the host's
  ToPropertyDescriptor therefore rejects the record with a \<^verbatim>\<open>TypeError\<close>, so no property
  can be defined from it.
\<close>

theorem accessor_record_value_undefined:
  assumes "no_proto props"
  shows "(\<exists>ds h'. describe_in h props dd = Inr (ds, h')) \<and>
         (describe_in h props dd = Inr (ds, h') \<and> map_of ds n = Some d \<and>
          (truthy (read_key d_get d) \<or> truthy (read_key d_set d)) \<longrightarrow>
            d_value (own d) = Some Undefined \<and>
            to_property_descriptor (effective d) = Inl TypeError)"
proof -
  have total: "\<exists>ds h'. describe_in h props dd = Inr (ds, h')"
    by (rule describe_total [OF assms])
  have rejected: "d_value (own d) = Some Undefined \<and>
        to_property_descriptor (effective d) = Inl TypeError"
    if run: "describe_in h props dd = Inr (ds, h')" and look: "map_of ds n = Some d"
      and acc: "truthy (read_key d_get d) \<or> truthy (read_key d_set d)"
  proof -
    from stored_shape [OF run look] obtain v d0 hp where
      d: "d = hide (hiding_allowed dd) n (fst (snd (accessor_or_value v d0 hp)))
                (fst (accessor_or_value v d0 hp))" by blast
    obtain d2 v2 hp2 where av: "accessor_or_value v d0 hp = (d2, v2, hp2)"
      by (cases "accessor_or_value v d0 hp")
    from d av acc have "truthy (read_key d_get d2) \<or> truthy (read_key d_set d2)"
      by (simp add: read_key_hide)
    from accessor_or_value_undefined [OF av this] d av
    have undef: "d_value (own d) = Some Undefined" by (simp add: hide_keys)
    with accessor_record_rejected [OF acc] show ?thesis by simp
  qed
  from total rejected show ?thesis by blast
qed



subsection \<open>The claims at concrete property maps\<close>

lemma run_hidden_getter:
  "describe_in pristine [(''(hidden get) y'', Fun (At 0))] None =
     Inr ([(''y'', \<lparr>own = no_attrs\<lparr>d_value := Some Undefined, d_get := Some (Fun (At 0)),
                                    d_enumerable := Some (Bool False)\<rparr>,
                    fallback = baseline, of_host = False\<rparr>)], pristine)"
  by (simp add: describe_eval)

text \<open>
  The record for \<^verbatim>\<open>{"(hidden get) y": fn}\<close>: the getter is \<open>fn\<close>, the record is
  non-enumerable, the key \<^verbatim>\<open>value\<close> is present, holding \<^verbatim>\<open>undefined\<close>, and the host
  rejects the record.
\<close>

theorem accessor_record_value_undefined_witness:
  "no_proto [(''(hidden get) y'', Fun (At 0))] \<and>
   describe_in pristine [(''(hidden get) y'', Fun (At 0))] None =
     Inr ([(''y'', \<lparr>own = no_attrs\<lparr>d_value := Some Undefined, d_get := Some (Fun (At 0)),
                                    d_enumerable := Some (Bool False)\<rparr>,
                    fallback = baseline, of_host = False\<rparr>)], pristine) \<and>
   truthy (read_key d_get \<lparr>own = no_attrs\<lparr>d_value := Some Undefined, d_get := Some (Fun (At 0)),
                                   d_enumerable := Some (Bool False)\<rparr>,
                   fallback = baseline, of_host = False\<rparr>) \<and>
   d_value (own \<lparr>own = no_attrs\<lparr>d_value := Some Undefined, d_get := Some (Fun (At 0)),
                                   d_enumerable := Some (Bool False)\<rparr>,
                   fallback = baseline, of_host = False\<rparr>) = Some Undefined \<and>
   to_property_descriptor
     (effective \<lparr>own = no_attrs\<lparr>d_value := Some Undefined, d_get := Some (Fun (At 0)),
                                   d_enumerable := Some (Bool False)\<rparr>,
                   fallback = baseline, of_host = False\<rparr>) = Inl TypeError"
proof -
  let ?d = "\<lparr>own = no_attrs\<lparr>d_value := Some Undefined, d_get := Some (Fun (At 0)),
                                   d_enumerable := Some (Bool False)\<rparr>,
             fallback = baseline, of_host = False\<rparr>"
  have np: "no_proto [(''(hidden get) y'', Fun (At 0))]"
    by (simp add: no_proto_def bare_name_def describe_eval)
  have look: "map_of [(''y'', ?d)] ''y'' = Some ?d" by simp
  have acc: "truthy (read_key d_get ?d)"
    by (simp add: read_key_def has_key_def no_attrs_def)
  from accessor_record_value_undefined [OF np, where h = pristine and dd = None
      and ds = "[(''y'', ?d)]" and h' = pristine and n = "''y''" and d = ?d]
    run_hidden_getter look acc np
  show ?thesis by simp
qed

text \<open>
  The record of \<^verbatim>\<open>y\<close> for \<^verbatim>\<open>{"(hidden get) y": fn}\<close> has the key \<^verbatim>\<open>value\<close> (it holds
  \<^verbatim>\<open>undefined\<close>), next to the getter and the cleared \<^verbatim>\<open>enumerable\<close>.
\<close>

theorem hidden_getter_has_value_key:
  "map_sum id (map (\<lambda>(n, d). (n, has_key d_value d, has_key d_get d, has_key d_enumerable d)))
     (describe [(''(hidden get) y'', Fun (At 0))] None) =
   Inr [(''y'', Some Undefined, Some (Fun (At 0)), Some (Bool False))]"
  by (simp add: describe_eval)









section \<open>The store and the super dispatch: lemmas\<close>


declare run.simps [simp del]

subsection \<open>Walking the prototype chain\<close>

lemma find_prop_own:
  "h a = Some ob \<Longrightarrow> map_of (own_props ob) n = Some p \<Longrightarrow> find_prop h a n = Some p"
  by (subst find_prop.simps) simp



lemma find_prop_none_own:
  "find_prop h a n = None \<Longrightarrow> h a = Some ob \<Longrightarrow> map_of (own_props ob) n = None"
  by (subst (asm) find_prop.simps) (auto split: option.splits)

text \<open>A lookup from \<open>a\<close> reads the store at \<open>a\<close> and below only.\<close>

lemma find_prop_cong:
  "(\<And>x. x \<le> a \<Longrightarrow> h x = h' x) \<Longrightarrow> find_prop h a n = find_prop h' a n"
proof (induction h a n rule: find_prop.induct)
  case (1 h a name)
  have same: "h a = h' a" using "1.prems" by simp
  show ?case
  proof (cases "h a")
    case None
    with same show ?thesis by (simp add: find_prop.simps [of h] find_prop.simps [of h'])
  next
    case (Some ob)
    show ?thesis
    proof (cases "map_of (own_props ob) name")
      case (Some p)
      with \<open>h a = Some ob\<close> same show ?thesis
        by (simp add: find_prop.simps [of h] find_prop.simps [of h'])
    next
      case None
      show ?thesis
      proof (cases "addr_of (proto ob)")
        case None
        with \<open>h a = Some ob\<close> \<open>map_of (own_props ob) name = None\<close> same show ?thesis
          by (simp add: find_prop.simps [of h] find_prop.simps [of h'])
      next
        case (Some b)
        show ?thesis
        proof (cases "b < a")
          case True
          have "find_prop h b name = find_prop h' b name"
            using "1.IH" [OF \<open>h a = Some ob\<close> \<open>map_of (own_props ob) name = None\<close> Some True]
              "1.prems" True by simp
          with \<open>h a = Some ob\<close> \<open>map_of (own_props ob) name = None\<close> Some True same
          show ?thesis by (simp add: find_prop.simps [of h a] find_prop.simps [of h' a])
        next
          case False
          with \<open>h a = Some ob\<close> \<open>map_of (own_props ob) name = None\<close> Some same
          show ?thesis by (simp add: find_prop.simps [of h a] find_prop.simps [of h' a])
        qed
      qed
    qed
  qed
qed


subsection \<open>Assignments\<close>

lemma heap_set_props:
  "heap (set_props s a ps) x =
     (if x = a then map_option (\<lambda>ob. ob\<lparr>own_props := ps\<rparr>) (heap s a) else heap s x)"
  by (simp add: set_props_def split: option.splits)

lemma set_props_fields [simp]:
  "fresh (set_props s a ps) = fresh s" "trace (set_props s a ps) = trace s"
  by (simp_all add: set_props_def split: option.splits)

lemma put_fields [simp]:
  "fresh (put s a n v) = fresh s" "trace (put s a n v) = trace s"
  by (simp_all add: put_def split: option.splits)

lemma heap_put_other: "x \<noteq> a \<Longrightarrow> heap (put s a n v) x = heap s x"
  by (simp add: put_def heap_set_props split: option.splits)

lemma heap_put_same:
  "heap s a = Some ob \<Longrightarrow>
     \<exists>ps. heap (put s a n v) a = Some (ob\<lparr>own_props := ps\<rparr>) \<and>
          (\<forall>k. k \<noteq> n \<longrightarrow> map_of ps k = map_of (own_props ob) k)"
  by (auto simp: put_def heap_set_props update_conv' split: option.splits
      intro: exI [of _ "own_props ob"])

text \<open>After an assignment the property, if it is the object's own and writable, holds
  the assigned value.\<close>

lemma put_own_value:
  assumes "own_prop (put s a n v) a n = Some p" and "p_writable p"
  shows "p_value p = v"
proof (cases "can_put s a n")
  case False
  then have same: "put s a n v = s" by (simp add: put_def)
  with assms have "can_put s a n"
    by (auto simp: own_prop_def can_put_def split: option.splits)
  with False show ?thesis by simp
next
  case True
  then obtain ob where ob: "heap s a = Some ob"
    by (auto simp: can_put_def split: option.splits)
  show ?thesis
  proof (cases "map_of (own_props ob) n")
    case None
    with True ob assms show ?thesis
      by (auto simp: put_def own_prop_def heap_set_props update_conv')
  next
    case (Some q)
    with True ob assms show ?thesis
      by (auto simp: put_def own_prop_def heap_set_props update_conv')
  qed
qed

lemma own_prop_find:
  "own_prop s a n = Some p \<Longrightarrow> find_prop (heap s) a n = Some p"
  by (auto simp: own_prop_def find_prop_own split: option.splits)

lemma and_then_Some:
  "and_then r k = Some (Inr v, s') \<Longrightarrow> \<exists>w s1. r = Some (Inr w, s1) \<and> k w s1 = Some (Inr v, s')"
  by (auto simp: and_then_def split: option.splits prod.splits sum.splits)

subsection \<open>Assignments, continued\<close>

lemma put_writable_own:
  assumes "own_prop s i n = Some p" and "p_writable p"
  shows "\<exists>ob. heap s i = Some ob \<and>
      put s i n v = s\<lparr>heap := (heap s)(i \<mapsto> ob\<lparr>own_props := AList.update n (p\<lparr>p_value := v\<rparr>) (own_props ob)\<rparr>)\<rparr>"
  using assms
  by (auto simp: own_prop_def put_def can_put_def set_props_def split: option.splits)

lemma own_prop_put_same:
  assumes "own_prop s i n = Some p" and "p_writable p"
  shows "own_prop (put s i n v) i n = Some (p\<lparr>p_value := v\<rparr>)"
proof -
  from put_writable_own [OF assms] obtain ob where "heap s i = Some ob"
    and "put s i n v = s\<lparr>heap := (heap s)(i \<mapsto> ob\<lparr>own_props := AList.update n (p\<lparr>p_value := v\<rparr>) (own_props ob)\<rparr>)\<rparr>"
    by blast
  then show ?thesis by (simp add: own_prop_def update_conv')
qed

lemma put_restore:
  assumes "own_prop s i n = Some p" and "p_writable p"
  shows "put (put s i n v) i n (p_value p) = s"
proof -
  from put_writable_own [OF assms] obtain ob where ob: "heap s i = Some ob"
    and p1: "put s i n v = s\<lparr>heap := (heap s)(i \<mapsto> ob\<lparr>own_props := AList.update n (p\<lparr>p_value := v\<rparr>) (own_props ob)\<rparr>)\<rparr>"
    by blast
  have own1: "own_prop (put s i n v) i n = Some (p\<lparr>p_value := v\<rparr>)"
    by (rule own_prop_put_same [OF assms])
  have wr1: "p_writable (p\<lparr>p_value := v\<rparr>)" using assms(2) by simp
  from put_writable_own [OF own1 wr1, of "p_value p"] p1 ob
  have "put (put s i n v) i n (p_value p) =
          s\<lparr>heap := (heap s)(i \<mapsto> ob\<lparr>own_props := AList.update n p (own_props ob)\<rparr>)\<rparr>"
    by auto
  moreover have "AList.update n p (own_props ob) = own_props ob"
    using assms(1) ob by (intro update_triv) (simp add: own_prop_def)
  moreover have "(heap s)(i \<mapsto> ob) = heap s" using ob by (simp add: fun_upd_idem)
  ultimately show ?thesis by simp
qed

lemma get_property_trace [simp]: "get_property (s\<lparr>trace := t\<rparr>) = get_property s"
  by (auto simp: get_property_def fun_eq_iff split: option.splits)

lemma can_put_trace [simp]: "can_put (s\<lparr>trace := t\<rparr>) = can_put s"
  by (auto simp: can_put_def fun_eq_iff split: option.splits)

lemma set_props_trace: "set_props (s\<lparr>trace := t\<rparr>) i ps = (set_props s i ps)\<lparr>trace := t\<rparr>"
  by (auto simp: set_props_def split: option.splits)

lemma put_trace: "put (s\<lparr>trace := t\<rparr>) i n v = (put s i n v)\<lparr>trace := t\<rparr>"
  by (auto simp: put_def set_props_trace split: option.splits)

lemma own_prop_trace [simp]: "own_prop (s\<lparr>trace := t\<rparr>) = own_prop s"
  by (simp add: own_prop_def fun_eq_iff)

lemma js_get_trace [simp]: "js_get (s\<lparr>trace := t\<rparr>) = js_get s"
  by (auto simp: js_get_def fun_eq_iff split: option.splits)

lemma js_in_trace [simp]: "js_in (s\<lparr>trace := t\<rparr>) = js_in s"
  by (auto simp: js_in_def fun_eq_iff split: sum.splits)

lemma getPrototypeOf_trace [simp]: "getPrototypeOf (s\<lparr>trace := t\<rparr>) = getPrototypeOf s"
  by (auto simp: getPrototypeOf_def fun_eq_iff split: sum.splits)

lemma fun_code_trace [simp]: "fun_code (s\<lparr>trace := t\<rparr>) = fun_code s"
  by (auto simp: fun_code_def fun_eq_iff split: jsval.splits fref.splits)

lemma fun_code_put [simp]: "fun_code (put s i n v) f = fun_code s f"
proof (cases f)
  case (Fun r)
  show ?thesis
  proof (cases r)
    case (At a)
    show ?thesis
    proof (cases "a = i")
      case True
      show ?thesis
      proof (cases "heap s i")
        case None
        then show ?thesis using Fun At True by (simp add: put_def can_put_def)
      next
        case (Some ob)
        from heap_put_same [OF Some, of n v] Some Fun At True show ?thesis
          by (auto simp: fun_code_def)
      qed
    next
      case False
      then show ?thesis using Fun At by (simp add: fun_code_def heap_put_other)
    qed
  qed (simp_all add: fun_code_def Fun)
qed (simp_all add: fun_code_def)

lemma getPrototypeOf_put [simp]: "getPrototypeOf (put s i n v) x = getPrototypeOf s x"
proof (cases "as_object x")
  case (Inl e)
  then show ?thesis by (simp add: getPrototypeOf_def)
next
  case (Inr a)
  show ?thesis
  proof (cases "a = i")
    case False
    with Inr show ?thesis by (simp add: getPrototypeOf_def heap_put_other)
  next
    case True
    show ?thesis
    proof (cases "heap s i")
      case None
      then show ?thesis by (simp add: put_def can_put_def)
    next
      case (Some ob)
      from heap_put_same [OF Some, of n v] Some Inr True show ?thesis
        by (auto simp: getPrototypeOf_def)
    qed
  qed
qed

lemma find_prop_put_below: "x < i \<Longrightarrow> find_prop (heap (put s i n v)) x k = find_prop (heap s) x k"
  by (rule find_prop_cong) (simp add: heap_put_other)




subsection \<open>One dispatch\<close>

lemma fun_code_typeof: "fun_code s f = Some c \<Longrightarrow> typeof f = ''function''"
  by (auto simp: fun_code_def split: jsval.splits fref.splits)

lemma super_call_step:
  assumes cur: "cursor s i = Some p" "p_writable p" "p_value p = Obj x" "x < i"
    and lvl: "heap s x = Some ox"
    and meth: "find_prop (heap s) x m = Some pm" "typeof (p_value pm) = ''function''"
    and args: "apply_args a = Inr vs"
  shows "super_call callf (Obj i) m a s =
           and_then (callf (p_value pm) (Obj i) vs (put s i ''__super__'' (proto ox)))
             (\<lambda>ret s2. Some (Inr ret, put s2 i ''__super__'' (Obj x)))"
proof -
  from cur(1) have fp: "find_prop (heap s) i ''__super__'' = Some p"
    by (simp add: cursor_def own_prop_find)
  have saved: "js_get s (Obj i) ''__super__'' = Inr (Obj x)"
    using fp cur(3) by (simp add: js_get_def)
  have up: "getPrototypeOf s (Obj x) = Inr (proto ox)"
    using lvl by (simp add: getPrototypeOf_def)
  have found: "js_get (put s i ''__super__'' (proto ox)) (Obj x) m = Inr (p_value pm)"
    using meth(1) cur(4) by (simp add: js_get_def find_prop_put_below)
  show ?thesis
    using saved up found meth(2) args
    by (simp add: super_call_def js_put_def)
qed



lemma run_user:
  assumes "fun_code s f = Some (User k)" and "this \<noteq> Undefined" and "this \<noteq> Null"
  shows "run (Suc n) tbl f this args s = tbl k (run n tbl) this args s"
  using assms by (simp add: run.simps lib_call_def)



subsection \<open>What an assignment to the cursor leaves alone\<close>

lemma own_prop_put_other: "x \<noteq> i \<Longrightarrow> own_prop (put s i n v) x k = own_prop s x k"
  by (simp add: own_prop_def heap_put_other)



lemma library_method_trace [simp]:
  "library_method (s\<lparr>trace := t\<rparr>) x name c = library_method s x name c"
  by (simp add: library_method_def split: option.splits)

lemma cursor_trace [simp]: "cursor (s\<lparr>trace := t\<rparr>) i = cursor s i"
  by (simp add: cursor_def)




subsection \<open>A dispatch into a chain of logging methods\<close>




subsection \<open>The first dispatch from an instance\<close>






subsection \<open>The state with the cursor defined\<close>


lemma trace_with_cursor [simp]: "trace (with_cursor s i g) = trace s"
  by (simp add: with_cursor_def alloc_literal_def alloc_def set_props_def split: option.splits)








lemma instance_of_trace [simp]: "instance_of (s\<lparr>trace := t\<rparr>) i c = instance_of s i c"
  by (simp add: instance_of_def)

lemma plain_host_trace [simp]: "plain_host (s\<lparr>trace := t\<rparr>) = plain_host s"
  by (simp add: plain_host_def)



section \<open>The super dispatch: what the cursor does\<close>




lemma super_call_final:
  assumes cur: "cursor s i = Some p" "p_writable p" "p_value p = Obj a" "a < i"
    and ma: "method_at s a m = Some (User k)" and body: "tbl k = final_method l"
  shows "super_call (run (Suc n) tbl) (Obj i) m (Arr []) s =
           Some (Inr Undefined, s\<lparr>trace := trace s @ [l]\<rparr>)"
proof -
  from ma obtain pm where pm: "own_prop s a m = Some pm"
    and code: "fun_code s (p_value pm) = Some (User k)"
    by (auto simp: method_at_def split: option.splits)
  from pm obtain oa where oa: "heap s a = Some oa"
    by (auto simp: own_prop_def split: option.splits)
  let ?s1 = "put s i ''__super__'' (proto oa)"
  have step: "super_call (run (Suc n) tbl) (Obj i) m (Arr []) s =
      and_then (run (Suc n) tbl (p_value pm) (Obj i) [] ?s1)
        (\<lambda>ret s2. Some (Inr ret, put s2 i ''__super__'' (Obj a)))"
    by (rule super_call_step [OF cur oa own_prop_find [OF pm] fun_code_typeof [OF code]])
      (simp add: apply_args_def)
  have call: "run (Suc n) tbl (p_value pm) (Obj i) [] ?s1 =
      Some (Inr Undefined, ?s1\<lparr>trace := trace s @ [l]\<rparr>)"
    using code body by (subst run_user [where k = k]) (simp_all add: final_method_def)
  have undo: "put ?s1 i ''__super__'' (Obj a) = s"
    using put_restore [of s i "''__super__''" p] cur(1-3) by (simp add: cursor_def)
  show ?thesis using step call undo by (simp add: and_then_def put_trace)
qed


subsection \<open>The example stores, evaluated\<close>



















lemmas dispatching_eval = applySuper_def init_super_def super_call_def js_in_def js_get_def
  js_put_def getPrototypeOf_def dispatching_def find_prop.simps and_then_def
  super_arguments_def arg_def apply_args_def run.simps lib_call_def fun_code_def
  function_object_def prototype_object_def method_holder_def empty_clone_def put_def
  can_put_def get_property_def set_props_def cursor_property_def own_prop_def cursor_def

lemma dispatching_cursor:
  "own_prop dispatching 6 ''__super__'' = Some (cursor_property (Obj 4))"
  "getPrototypeOf dispatching (Obj 4) = Inr (Obj 0)"
  "js_get (put dispatching 6 ''__super__'' (Obj 0)) (Obj 4) ''m'' = Inr (Fun (At 2))"
  by (simp_all add: dispatching_eval)

lemma dispatching_callee_returns:
  "run 1 (\<lambda>k. final_method (Str ''A'')) (Fun (At 2)) (Obj 6) []
     (put dispatching 6 ''__super__'' (Obj 0)) =
   Some (Inr Undefined, (put dispatching 6 ''__super__'' (Obj 0))\<lparr>trace := [Str ''A'']\<rparr>)"
  by (simp add: dispatching_eval final_method_def)

lemma dispatching_callee_throws:
  "run 1 (\<lambda>k. thrower) (Fun (At 2)) (Obj 6) [] (put dispatching 6 ''__super__'' (Obj 0)) =
   Some (Inl (Thrown (Str ''stop'')), put dispatching 6 ''__super__'' (Obj 0))"
  by (simp add: dispatching_eval thrower_def)

lemma dispatching_restored:
  "put ((put dispatching 6 ''__super__'' (Obj 0))\<lparr>trace := [Str ''A'']\<rparr>) 6 ''__super__'' (Obj 4) =
   dispatching\<lparr>trace := [Str ''A'']\<rparr>"
  by (simp add: dispatching_eval)

subsection \<open>The cursor after a dispatch\<close>

text \<open>
  Claim C1, as the code has it. The receiver has a writable cursor of its own, \<open>p\<close>.
  \<^verbatim>\<open>_applySuper\<close> saves it, assigns the prototype of the saved level to the cursor, and
  applies the method found at the saved level; the write-back is the statement after the
  call, outside any \<^verbatim>\<open>try\<close>. So when the method returns, the dispatch returns what it
  returned, in the state it left with the saved value assigned to the cursor again; a
  cursor that is a writable own property after a dispatch that returned has its value from
  before. When the method ends with an error, the dispatch ends with that error in the
  state the method left: nothing is written back.
\<close>

theorem cursor_written_back_on_return_only:
  assumes own: "own_prop s i ''__super__'' = Some p" and wr: "p_writable p"
    and recv: "this = Obj i \<or> this = Fun (At i)"
  shows "(applySuper callf this args s = Some (Inr r, s') \<and>
          own_prop s' i ''__super__'' = Some p' \<and> p_writable p' \<longrightarrow>
            p_value p' = p_value p) \<and>
         (getPrototypeOf s (p_value p) = Inr up \<and>
          js_get (put s i ''__super__'' up) (p_value p) (fst (super_arguments args)) = Inr f \<and>
          typeof f = ''function'' \<and> apply_args (snd (super_arguments args)) = Inr vs \<longrightarrow>
            (callf f this vs (put s i ''__super__'' up) = Some (Inr r, s2) \<longrightarrow>
               applySuper callf this args s =
                 Some (Inr r, put s2 i ''__super__'' (p_value p))) \<and>
            (callf f this vs (put s i ''__super__'' up) = Some (Inl e, s2) \<longrightarrow>
               applySuper callf this args s = Some (Inl e, s2)))"
proof -
  from recv have ao: "as_object this = Inr i" and ad: "addr_of this = Some i"
    and nn: "this \<noteq> Undefined" "this \<noteq> Null" by auto
  from own have fp: "find_prop (heap s) i ''__super__'' = Some p" by (rule own_prop_find)
  have init: "init_super callf this s = Some (Inr (Bool True), s)"
    using ao fp by (simp add: init_super_def js_in_def)
  let ?m = "fst (super_arguments args)" and ?a = "snd (super_arguments args)"
  have unfold: "applySuper callf this args s = super_call callf this ?m ?a s"
    using init by (simp add: applySuper_def and_then_def)
  have saved: "js_get s this ''__super__'' = Inr (p_value p)"
    using ad nn fp by (simp add: js_get_def)
  have restored: "p_value p' = p_value p"
    if ret: "applySuper callf this args s = Some (Inr r, s')"
      and own': "own_prop s' i ''__super__'' = Some p'" and wr': "p_writable p'"
  proof -
    from ret unfold have sc: "super_call callf this ?m ?a s = Some (Inr r, s')" by simp
    from sc saved obtain s3 where "s' = put s3 i ''__super__'' (p_value p)"
      by (auto simp: super_call_def js_put_def nn ao and_then_def
          split: sum.splits if_splits option.splits prod.splits)
    with own' wr' show ?thesis using put_own_value by blast
  qed
  have step: "applySuper callf this args s =
      and_then (callf f this vs (put s i ''__super__'' up))
        (\<lambda>returned s2. Some (Inr returned, put s2 i ''__super__'' (p_value p)))"
    if "getPrototypeOf s (p_value p) = Inr up"
      "js_get (put s i ''__super__'' up) (p_value p) ?m = Inr f"
      "typeof f = ''function''" "apply_args ?a = Inr vs"
    using that saved unfold by (simp add: super_call_def js_put_def nn ao)
  have returned: "applySuper callf this args s = Some (Inr r, put s2 i ''__super__'' (p_value p))"
    if "getPrototypeOf s (p_value p) = Inr up"
      "js_get (put s i ''__super__'' up) (p_value p) ?m = Inr f"
      "typeof f = ''function''" "apply_args ?a = Inr vs"
      "callf f this vs (put s i ''__super__'' up) = Some (Inr r, s2)"
    using step [OF that(1-4)] that(5) by (simp add: and_then_def)
  have thrown: "applySuper callf this args s = Some (Inl e, s2)"
    if "getPrototypeOf s (p_value p) = Inr up"
      "js_get (put s i ''__super__'' up) (p_value p) ?m = Inr f"
      "typeof f = ''function''" "apply_args ?a = Inr vs"
      "callf f this vs (put s i ''__super__'' up) = Some (Inl e, s2)"
    using step [OF that(1-4)] that(5) by (simp add: and_then_def)
  from restored returned thrown show ?thesis by blast
qed

text \<open>
  The dispatch from the object at 6, whose cursor is \<^verbatim>\<open>A\<close> (at 4), into a method of \<^verbatim>\<open>A\<close>:
  when the method returns, the cursor is \<^verbatim>\<open>A\<close> again; when it throws, the store is the
  one the method left, with \<^verbatim>\<open>A\<close>'s prototype (at 0) as the cursor.
\<close>

theorem cursor_written_back_on_return_only_witness:
  "own_prop dispatching 6 ''__super__'' = Some (cursor_property (Obj 4)) \<and>
   p_writable (cursor_property (Obj 4)) \<and>
   applySuper (run 1 (\<lambda>k. final_method (Str ''A''))) (Obj 6) [Str ''m'', Arr []] dispatching =
     Some (Inr Undefined, dispatching\<lparr>trace := [Str ''A'']\<rparr>) \<and>
   own_prop (dispatching\<lparr>trace := [Str ''A'']\<rparr>) 6 ''__super__'' =
     Some (cursor_property (Obj 4)) \<and>
   applySuper (run 1 (\<lambda>k. thrower)) (Obj 6) [Str ''m'', Arr []] dispatching =
     Some (Inl (Thrown (Str ''stop'')), put dispatching 6 ''__super__'' (Obj 0))"
proof -
  have wr: "p_writable (cursor_property (Obj 4))" "p_value (cursor_property (Obj 4)) = Obj 4"
    by (simp_all add: cursor_property_def)
  have args: "fst (super_arguments [Str ''m'', Arr []]) = ''m''"
    "apply_args (snd (super_arguments [Str ''m'', Arr []])) = Inr []"
    "typeof (Fun (At 2)) = ''function''"
    by (simp_all add: super_arguments_def arg_def apply_args_def)
  note returns = cursor_written_back_on_return_only [OF dispatching_cursor(1) wr(1),
      where this = "Obj 6" and callf = "run 1 (\<lambda>k. final_method (Str ''A''))"
        and args = "[Str ''m'', Arr []]" and up = "Obj 0" and f = "Fun (At 2)" and vs = "[]"
        and r = Undefined
        and ?s2.0 = "(put dispatching 6 ''__super__'' (Obj 0))\<lparr>trace := [Str ''A'']\<rparr>"]
  note throws = cursor_written_back_on_return_only [OF dispatching_cursor(1) wr(1),
      where this = "Obj 6" and callf = "run 1 (\<lambda>k. thrower)"
        and args = "[Str ''m'', Arr []]" and up = "Obj 0" and f = "Fun (At 2)" and vs = "[]"
        and e = "Thrown (Str ''stop'')" and ?s2.0 = "put dispatching 6 ''__super__'' (Obj 0)"]
  have a: "applySuper (run 1 (\<lambda>k. final_method (Str ''A''))) (Obj 6) [Str ''m'', Arr []]
      dispatching = Some (Inr Undefined, dispatching\<lparr>trace := [Str ''A'']\<rparr>)"
    using returns dispatching_cursor wr args dispatching_callee_returns dispatching_restored
    by simp
  have b: "applySuper (run 1 (\<lambda>k. thrower)) (Obj 6) [Str ''m'', Arr []] dispatching =
      Some (Inl (Thrown (Str ''stop'')), put dispatching 6 ''__super__'' (Obj 0))"
    using throws dispatching_cursor wr args dispatching_callee_throws by simp
  have c: "own_prop (dispatching\<lparr>trace := [Str ''A'']\<rparr>) 6 ''__super__'' =
      Some (cursor_property (Obj 4))"
    using dispatching_cursor(1) by simp
  from dispatching_cursor(1) wr(1) a b c show ?thesis by blast
qed

text \<open>
  C1 as stated fails: \<^verbatim>\<open>A\<close>'s method throws, and the cursor of the object at 6, \<^verbatim>\<open>A\<close>
  before the dispatch, is \<^verbatim>\<open>A\<close>'s prototype (at 0) after it.
\<close>

theorem cursor_advanced_after_throw:
  "applySuper (run 1 (\<lambda>k. thrower)) (Obj 6) [Str ''m'', Arr []] dispatching =
     Some (Inl (Thrown (Str ''stop'')), put dispatching 6 ''__super__'' (Obj 0)) \<and>
   map_option p_value (cursor dispatching 6) = Some (Obj 4) \<and>
   map_option p_value (cursor (put dispatching 6 ''__super__'' (Obj 0)) 6) = Some (Obj 0)"
  by (simp add: dispatching_eval thrower_def)

subsection \<open>A chain of three levels\<close>



subsection \<open>Two dispatches from one method\<close>



section \<open>Creating instances\<close>

lemma heap_cloned: "heap (cloned s t) = (heap s)(fresh s \<mapsto> empty_clone t)"
  by (simp add: cloned_def alloc_def empty_clone_def)





lemma run_lib:
  assumes "fun_code s f = Some c" and "this \<noteq> Undefined" and "this \<noteq> Null"
  shows "run (Suc n) tbl f this args s = lib_call n (run n tbl) tbl c f this args s"
  using assms by (simp add: run.simps)






















section \<open>The first dispatch from a sealed instance\<close>









section \<open>An accessor entry passed to \<^verbatim>\<open>clone\<close>\<close>

lemmas getter_eval = with_getter_def literal_def library_def
  library_heap_def loaded_heap_def member_props_def members_def enumerate_eq_zip upt_rec
  object_prototype_def function_prototype_def dollar_object_def function_object_def
  prototype_object_def find_prop.simps

text \<open>
  What the key \<^verbatim>\<open>value\<close> of an accessor record (C6) does to the library's documented use:
  \<^verbatim>\<open>$object.clone({'(get) y': fn})\<close> describes \<^verbatim>\<open>y\<close> by a record with the getter and the
  key \<^verbatim>\<open>value\<close>, and \<^verbatim>\<open>Object.create\<close> rejects it: the call ends in a \<^verbatim>\<open>TypeError\<close>.
\<close>

theorem clone_with_getter_throws:
  "describe [(''(get) y'', Fun (At 55))] None =
     Inr [(''y'', \<lparr>own = no_attrs\<lparr>d_value := Some Undefined, d_get := Some (Fun (At 55))\<rparr>,
                   fallback = baseline, of_host = False\<rparr>)] \<and>
   run 1 (\<lambda>k. returning_method) (Fun (At 3)) (Obj 2) [Obj 57] with_getter =
     Some (Inl TypeError, cloned with_getter 2)"
  by (simp add: run.simps fun_code_def lib_call_def lib_clone_def create_with_def
      object_create_def cloned_def alloc_def getter_eval arg_def js_get_def
      describe_args_def entries_of_def for_in.simps in_store_def describe_eval effective_def
      defineProperties_def to_property_descriptor_def define_own_property_def set_props_def
      empty_clone_def)

section \<open>Mixing sources\<close>


lemma set_props_twice:
  "heap s u = Some ou \<Longrightarrow> set_props (set_props s u ps) u qs = set_props s u qs"
  by (simp add: set_props_def)

lemma copy_props_plain:
  assumes "heap s a = Some oa" and "heap s u = Some ou" and "u \<noteq> a" and "extensible ou"
    and "set names \<subseteq> fst ` set (own_props oa)" and "distinct names"
    and "\<forall>n\<in>set names. map_of (own_props ou) n = None"
  shows "\<exists>ps. copy_props callf Null a u names s = Some (Inr Undefined, set_props s u ps) \<and>
           (\<forall>n. map_of ps n =
              (if n \<in> set names then map_of (own_props oa) n else map_of (own_props ou) n))"
  using assms
proof (induction names arbitrary: s ou)
  case Nil
  have "set_props s u (own_props ou) = s"
    using Nil.prems(2) by (simp add: set_props_def fun_upd_idem)
  then show ?case by (intro exI [of _ "own_props ou"]) simp
next
  case (Cons name names)
  from Cons.prems(5) obtain p where p: "map_of (own_props oa) name = Some p"
    by (cases "map_of (own_props oa) name") (auto simp: map_of_eq_None_iff)
  have own: "own_prop s a name = Some p"
    using Cons.prems(1) p by (simp add: own_prop_def)
  let ?ps1 = "AList.update name p (own_props ou)"
  let ?s1 = "set_props s u ?ps1"
  let ?ou1 = "ou\<lparr>own_props := ?ps1\<rparr>"
  have same: "\<lparr>p_value = p_value p, p_writable = p_writable p, p_enumerable = p_enumerable p,
       p_configurable = p_configurable p\<rparr> = p" by simp
  have defd: "define_own_property s u name ((pdesc_of_prop p)\<lparr>pd_value := Some (p_value p)\<rparr>) =
      Inr ?s1"
    using Cons.prems(2,4,7)
    by (simp add: define_own_property_def pdesc_of_prop_def same)
  have h1: "heap ?s1 = (heap s)(u \<mapsto> ?ou1)"
    using Cons.prems(2) by (simp add: set_props_def)
  have "\<exists>ps. copy_props callf Null a u names ?s1 = Some (Inr Undefined, set_props ?s1 u ps) \<and>
           (\<forall>n. map_of ps n =
              (if n \<in> set names then map_of (own_props oa) n else map_of (own_props ?ou1) n))"
  proof (rule Cons.IH)
    show "heap ?s1 a = Some oa" using Cons.prems(1,3) by (simp add: h1)
    show "heap ?s1 u = Some ?ou1" by (simp add: h1)
    show "u \<noteq> a" by (rule Cons.prems(3))
    show "extensible ?ou1" using Cons.prems(4) by simp
    show "set names \<subseteq> fst ` set (own_props oa)" using Cons.prems(5) by simp
    show "distinct names" using Cons.prems(6) by simp
    show "\<forall>n\<in>set names. map_of (own_props ?ou1) n = None"
      using Cons.prems(6,7) by (auto simp: update_conv')
  qed
  then obtain ps where ps: "copy_props callf Null a u names ?s1 =
      Some (Inr Undefined, set_props ?s1 u ps)"
    and maps: "\<And>n. map_of ps n =
      (if n \<in> set names then map_of (own_props oa) n else map_of (own_props ?ou1) n)"
    by blast
  have "copy_props callf Null a u (name # names) s = Some (Inr Undefined, set_props s u ps)"
    using own defd ps set_props_twice [OF Cons.prems(2)]
    by (simp add: and_then_def)
  moreover have "\<forall>n. map_of ps n =
      (if n \<in> set (name # names) then map_of (own_props oa) n else map_of (own_props ou) n)"
    using maps p by (auto simp: update_conv')
  ultimately show ?case by blast
qed














section \<open>Copying\<close>

text \<open>The condition \<^verbatim>\<open>deepMethod != 'deepCopy' || deepMethod != 'deepClone'\<close> holds for
  every value, so \<^verbatim>\<open>copy\<close> always goes on with \<^verbatim>\<open>deepMethod = null\<close>.\<close>


lemma checked_deepMethod_null: "checked_deepMethod dm = Null"
  by (auto simp: checked_deepMethod_def)


text \<open>
  Claim C3, as the code has it. Whatever the deep method named, \<^verbatim>\<open>src.copy(dm, $object,
  0, true)\<close> returns a new object on which every own property of \<^verbatim>\<open>src\<close> reads as the
  value \<^verbatim>\<open>src\<close> holds: an object-valued property is the same reference, not a copy.
\<close>

theorem copy_shares_nested_objects:
  assumes wf: "allocated s"
    and src: "heap s a = Some oa" "distinct (map fst (own_props oa))"
      "map_of (own_props oa) k = Some p"
    and cp: "fun_code s fc = Some LibCopy"
  shows "\<exists>s'. run (2 + n) tbl fc (Obj a) [Str dm, Obj dollar_object, Num 0, Bool True] s =
               Some (Inr (Obj (fresh s)), s') \<and>
             js_get s' (Obj (fresh s)) k = Inr (p_value p)"
proof -
  let ?u = "fresh s" and ?s1 = "cloned s dollar_object"
  let ?args = "[Str dm, Obj dollar_object, Num 0, Bool True]"
  from src(1) wf have au: "a < ?u" by (auto simp: allocated_def not_le [symmetric])
  have args: "copy_arguments ?args = (Str dm, Obj dollar_object, Num 0, Bool True)"
    by (simp add: copy_arguments_def assign_by_type_def argument_at_def arg_def upt_rec)
  have create: "object_create s (Obj dollar_object) = Inr (?u, ?s1)"
    by (simp add: object_create_def cloned_def alloc_def)
  have h1: "heap ?s1 a = Some oa" using au src(1) by (simp add: heap_cloned)
  have "\<exists>ps. copy_props (run (Suc n) tbl) Null a ?u (map fst (own_props oa)) ?s1 =
            Some (Inr Undefined, set_props ?s1 ?u ps) \<and>
          (\<forall>n. map_of ps n =
             (if n \<in> set (map fst (own_props oa)) then map_of (own_props oa) n
              else map_of (own_props (empty_clone dollar_object)) n))"
    by (rule copy_props_plain)
      (use au src in \<open>auto simp: heap_cloned empty_clone_def\<close>)
  then obtain ps where ps: "copy_props (run (Suc n) tbl) Null a ?u (map fst (own_props oa)) ?s1 =
            Some (Inr Undefined, set_props ?s1 ?u ps)"
    and maps: "\<And>n. map_of ps n =
             (if n \<in> set (map fst (own_props oa)) then map_of (own_props oa) n
              else map_of (own_props (empty_clone dollar_object)) n)"
    by blast
  let ?s2 = "set_props ?s1 ?u ps"
  have k: "map_of ps k = Some p"
    using maps [of k] src(3) by (auto simp: map_of_eq_None_iff [symmetric] simp del: map_of_eq_None_iff)
  have h2: "heap ?s2 = (heap s)(?u \<mapsto> (empty_clone dollar_object)\<lparr>own_props := ps\<rparr>)"
    by (simp add: set_props_def heap_cloned)
  have up: "getPrototypeOf ?s2 (Obj a) = Inr (proto oa)"
    using au src(1) by (simp add: getPrototypeOf_def h2)
  have loop: "copy_loop (Suc n) (run (Suc n) tbl) Null (Bool True) (Obj a) (Obj ?u) (Num 0) ?s1 =
      Some (Inr Undefined, ?s2)"
    using h1 ps up
    by (simp add: prototype_if_function_def own_names_def and_then_def post_decrement_def)
  have "run (Suc (Suc n)) tbl fc (Obj a) ?args s = Some (Inr (Obj ?u), ?s2)"
    using args create loop
    by (simp add: run_lib [OF cp] lib_call_def lib_copy_def checked_deepMethod_null
        prototype_if_function_def and_then_def)
  moreover have "find_prop (heap ?s2) ?u k = Some p"
    by (rule find_prop_own [where ob = "(empty_clone dollar_object)\<lparr>own_props := ps\<rparr>"])
      (simp_all add: h2 k)
  then have "js_get ?s2 (Obj ?u) k = Inr (p_value p)" by (simp add: js_get_def)
  ultimately show ?thesis by (auto simp: numeral_2_eq_2)
qed

lemmas nested_eval = nested_source_def literal_def
  library_heap_def loaded_heap_def member_props_def members_def enumerate_eq_zip upt_rec
  object_prototype_def function_prototype_def dollar_object_def function_object_def
  prototype_object_def find_prop.simps

lemma nested_source_facts:
  "allocated nested_source"
  "heap nested_source 56 = Some (literal [(''a'', Obj 55)])"
  "distinct (map fst (own_props (literal [(''a'', Obj 55)])))"
  "map_of (own_props (literal [(''a'', Obj 55)])) ''a'' =
     Some \<lparr>p_value = Obj 55, p_writable = True, p_enumerable = True, p_configurable = True\<rparr>"
  "fun_code nested_source (Fun (At 19)) = Some LibCopy"
  by (simp_all add: allocated_def fun_code_def nested_eval)

theorem copy_shares_nested_objects_witness:
  "\<exists>s'. run 2 (\<lambda>k. returning_method) (Fun (At 19)) (Obj 56)
          [Str ''deepCopy'', Obj dollar_object, Num 0, Bool True] nested_source =
          Some (Inr (Obj 57), s') \<and>
        js_get s' (Obj 57) ''a'' = Inr (Obj 55) \<and>
        js_get nested_source (Obj 56) ''a'' = Inr (Obj 55)"
proof -
  have "fresh nested_source = 57" by (simp add: nested_source_def)
  moreover have "js_get nested_source (Obj 56) ''a'' = Inr (Obj 55)"
    by (simp add: js_get_def nested_eval)
  ultimately show ?thesis
    using copy_shares_nested_objects [OF nested_source_facts, where n = 0
        and tbl = "\<lambda>k. returning_method" and dm = "''deepCopy''"]
    by simp
qed

end
